theory Spec2Isabelle
  imports Main "HOL-Library.Sublist"
begin

section \<open>The SD-Mox engine (app/sd\_mox.py)\<close>

text \<open>
  A shallow embedding of class \<open>SDMox\<close>. Python dictionaries with a fixed set of keys are
  records; a key read with \<open>.get\<close> is an optional field, a key read with a subscript is a
  field that is there. Every \<open>raise\<close> is a value \<open>Inl e\<close>. The effects of the engine
  (documents published on the message channel, reads of the registry, lookups of the
  address service, waits of the polling loop) are kept in an explicit state.

  Strings are lists of characters; the character tests and the case mapping below are those
  of Python on the ASCII characters (a character outside ASCII is given no letter or digit
  status and no case mapping).
\<close>

subsection \<open>Errors\<close>

text \<open>The entries of \<open>code_errors\<close> in \<open>_validate_unit_code\<close>, in the order of the source.\<close>

datatype code_error =
    Not_given       \<comment> \<open>unit code is None (line 519)\<close>
  | Too_short       \<comment> \<open>fewer than 2 characters (line 522)\<close>
  | Too_long        \<comment> \<open>more than 4 characters (line 524)\<close>
  | Invalid_char    \<comment> \<open>not alphanumeric (line 526)\<close>
  | Not_upper       \<comment> \<open>differs from its upper-cased form (line 528)\<close>
  | In_use          \<comment> \<open>the registry already has a unit with this code (line 536)\<close>

text \<open>The field names appended to \<open>errors\<close> in \<open>_check_department\<close>.\<close>

datatype field =
    Unit | Activation_Date | Name | Unit_code | UUID | Level | Phone | Pnummer
  | Address | Zip_code | Postal_Area | Parent

text \<open>
  \<open>SDMoxError\<close> with its message, one constructor for each raise of the source, and the
  built-in exceptions of Python that the source lets escape.
\<close>

datatype error =
    Code_errors "code_error list"      \<comment> \<open>lines 210, 236, 572, 620\<close>
  | Parent_not_found                    \<comment> \<open>lines 579, 627\<close>
  | Level_mismatch                      \<comment> \<open>lines 587, 634\<close>
  | Not_unique                          \<comment> \<open>line 367\<close>
  | Unit_not_found "string option"      \<comment> \<open>line 665\<close>
  | Fields_not_updated "field list"     \<comment> \<open>line 668\<close>
  | Unknown_level                       \<comment> \<open>line 674\<close>
  | Unknown_parent_level                \<comment> \<open>line 678\<close>
  | Dar_lookup_failed string            \<comment> \<open>line 716\<close>
  | Dar_not_found string                \<comment> \<open>line 718\<close>
  | Postal_before_pnumber               \<comment> \<open>line 737\<close>
  | ValueError | TypeError | IndexError | KeyError

subsection \<open>Python's string methods\<close>

definition isalnum_char :: "char \<Rightarrow> bool" where
  "isalnum_char c =
     (let n = (of_char c :: nat)
      in (48 \<le> n \<and> n \<le> 57) \<or> (65 \<le> n \<and> n \<le> 90) \<or> (97 \<le> n \<and> n \<le> 122))"

definition isalnum :: "string \<Rightarrow> bool" where
  \<comment> \<open>\<open>str.isalnum\<close>: at least one character, and all of them alphanumeric\<close>
  "isalnum s = (s \<noteq> [] \<and> list_all isalnum_char s)"

definition upper_char :: "char \<Rightarrow> char" where
  "upper_char c =
     (let n = (of_char c :: nat)
      in if 97 \<le> n \<and> n \<le> 122 then char_of (n - 32) else c)"

definition upper :: "string \<Rightarrow> string" where
  "upper s = map upper_char s"

definition isspace_char :: "char \<Rightarrow> bool" where
  \<comment> \<open>tab, line feed, vertical tab, form feed, carriage return, the four separators, space\<close>
  "isspace_char c =
     (let n = (of_char c :: nat) in (9 \<le> n \<and> n \<le> 13) \<or> (28 \<le> n \<and> n \<le> 32))"

definition strip :: "string \<Rightarrow> string" where
  "strip s = rev (dropWhile isspace_char (rev (dropWhile isspace_char s)))"

definition startswith :: "string \<Rightarrow> string \<Rightarrow> bool" where
  \<comment> \<open>\<open>s.startswith(p)\<close>\<close>
  "startswith s p = (take (length p) s = p)"

definition endswith :: "string \<Rightarrow> string \<Rightarrow> bool" where
  \<comment> \<open>\<open>s.endswith(p)\<close>\<close>
  "endswith s p = (length p \<le> length s \<and> drop (length s - length p) s = p)"

definition after_last :: "char \<Rightarrow> string \<Rightarrow> string" where
  \<comment> \<open>what follows the last \<open>sep\<close> of \<open>s\<close>\<close>
  "after_last sep s = rev (takeWhile (\<lambda>c. c \<noteq> sep) (rev s))"

definition before_last :: "char \<Rightarrow> string \<Rightarrow> string" where
  \<comment> \<open>what precedes the last \<open>sep\<close> of \<open>s\<close>\<close>
  "before_last sep s = rev (tl (dropWhile (\<lambda>c. c \<noteq> sep) (rev s)))"

fun rsplit :: "char \<Rightarrow> nat \<Rightarrow> string \<Rightarrow> string list" where
  \<comment> \<open>\<open>s.rsplit(sep, maxsplit)\<close> for a separator of one character\<close>
  "rsplit sep 0 s = [s]"
| "rsplit sep (Suc n) s =
     (if sep \<in> set s then rsplit sep n (before_last sep s) @ [after_last sep s] else [s])"

subsection \<open>Python's list and dictionary reads\<close>

definition get_first :: "'a list option \<Rightarrow> error + 'a option" where
  \<comment> \<open>\<open>d.get(k, [None])[0]\<close>, given \<open>d.get(k)\<close>\<close>
  "get_first r =
     (case r of None \<Rightarrow> Inr None | Some [] \<Rightarrow> Inl IndexError | Some (x # _) \<Rightarrow> Inr (Some x))"

fun index :: "'a list \<Rightarrow> 'a \<Rightarrow> error + nat" where
  \<comment> \<open>\<open>xs.index(x)\<close>\<close>
  "index [] x = Inl ValueError"
| "index (y # ys) x =
     (if y = x then Inr 0
      else (case index ys x of Inl e \<Rightarrow> Inl e | Inr i \<Rightarrow> Inr (Suc i)))"

definition py_or :: "string option \<Rightarrow> string option \<Rightarrow> string option" where
  \<comment> \<open>\<open>a or b\<close>: None and the empty string are false\<close>
  "py_or a b = (case a of None \<Rightarrow> b | Some x \<Rightarrow> if x = [] then b else Some x)"

definition setdefault_append :: "(string \<rightharpoonup> 'a list) \<Rightarrow> string \<Rightarrow> 'a \<Rightarrow> (string \<rightharpoonup> 'a list)" where
  \<comment> \<open>\<open>d.setdefault(k, []).append(v)\<close>\<close>
  "setdefault_append d k v = d(k \<mapsto> (case d k of None \<Rightarrow> [] | Some xs \<Rightarrow> xs) @ [v])"

subsection \<open>Data\<close>

text \<open>An address of the directory: \<open>d["address_type"]["scope"]\<close>,
  \<open>d["address_type"]["user_key"]\<close> and \<open>d["value"]\<close>.\<close>

record address =
  scope :: string
  address_user_key :: string
  address_value :: string

text \<open>A unit of the directory, as \<open>read_ou\<close> returns it and as \<open>create_unit\<close> receives it.\<close>

record mo_unit =
  name :: string
  user_key :: "string option"
  uuid :: string
  org_unit_level :: string              \<comment> \<open>\<open>unit["org_unit_level"]["uuid"]\<close>\<close>
  details :: "address list"            \<comment> \<open>\<open>unit_data.get("details", [])\<close>\<close>

text \<open>The address built by \<open>_mo_to_sd_address\<close>.\<close>

record sd_address =
  AdresseNavn :: string
  PostKodeIdentifikator :: string
  ByNavn :: string

text \<open>The \<open>parent\<close> entry built by \<open>_payload_create\<close>.\<close>

record parent_ref =
  parent_unit_code :: "string option"
  parent_uuid :: string
  parent_level :: string

text \<open>
  The payload dictionaries of \<open>_payload_create\<close> and \<open>_payload_edit\<close>, passed on as keyword
  arguments: a key that a payload does not have is the default None of the receiving method.
\<close>

record payload =
  unit_name :: "string option"
  unit_code :: "string option"
  unit_uuid :: "string option"
  unit_level :: "string option"
  phone :: "string option"
  pnummer :: "string option"
  adresse :: "sd_address option"
  parent :: "parent_ref option"
  formaalskode :: "string option"       \<comment> \<open>\<open>integration_values["formaalskode"]\<close>\<close>
  skolekode :: "string option"          \<comment> \<open>\<open>integration_values["skolekode"]\<close>\<close>

text \<open>A department as the registry reader returns it.\<close>

record postal_address =
  StandardAddressIdentifier :: "string option"
  PostalCode :: "string option"
  DistrictName :: "string option"

record contact_information =
  TelephoneNumberIdentifier :: "string list option"

record department =
  ActivationDate :: "string option"
  DepartmentName :: "string option"
  DepartmentIdentifier :: "string option"
  DepartmentUUIDIdentifier :: "string option"
  DepartmentLevelIdentifier :: "string option"
  ContactInformation :: "contact_information option"
  ProductionUnitIdentifier :: "string option"
  PostalAddress :: "postal_address option"

text \<open>
  \<open>department.get("Department", None)\<close>: nothing, one department, or a list of them. (The
  reader parses XML, where an element is never an empty dictionary, so a department that is
  there is true in Python.)
\<close>

datatype lookup = Absent | Single department | Multiple "department list"

text \<open>
  A request to the address service: an exception anywhere in the \<open>try\<close> block, or the parsed
  list, each entry given by its \<open>betegnelse\<close>.
\<close>

datatype dawa_response = Request_failed | Json "string list"

datatype operation = Flyt | Ret | Import

text \<open>
  The XML documents are rendered by \<open>app.sd_mox_payloads\<close> from the payload and the effective
  window of the engine: a document is given by the renderer and its payload.
\<close>

datatype wire_doc = Xml_import payload | Xml_flyt payload | Xml_ret payload

subsection \<open>The engine and its state\<close>

text \<open>
  The configuration of the engine and its collaborators. The registry answers by the
  number of reads made so far, since it changes while the engine polls.
\<close>

record engine =
  sd_levels :: "(string \<times> string) list"
    \<comment> \<open>\<open>self.sd_levels.items()\<close>, in order: level key and class uuid\<close>
  from_date :: string
    \<comment> \<open>\<open>self.virkning["sd:FraTidspunkt"]["sd:TidsstempelDatoTid"][0:10]\<close>\<close>
  amqp_check_retries :: nat
  read_ou :: "string \<Rightarrow> string option \<Rightarrow> mo_unit"
  read_ou_address :: "string \<Rightarrow> string option \<Rightarrow> address list"
  getDepartment :: "nat \<Rightarrow> string option \<Rightarrow> string option \<Rightarrow> lookup"
  getDepartmentParent :: "nat \<Rightarrow> string option \<Rightarrow> string option option"
    \<comment> \<open>\<open>DepartmentParent\<close> (outer option) and its \<open>DepartmentUUIDIdentifier\<close> (inner)\<close>
  dawa :: "string \<Rightarrow> string \<Rightarrow> dawa_response"
    \<comment> \<open>endpoint and address id\<close>

record state =
  published :: "wire_doc list"          \<comment> \<open>bodies given to \<open>basic_publish\<close>, oldest first\<close>
  sd_reads :: nat                       \<comment> \<open>reads of the registry so far\<close>
  dawa_requests :: "string list"        \<comment> \<open>endpoints requested so far, oldest first\<close>
  sleeps :: nat                         \<comment> \<open>waits of \<open>amqp_check_waittime\<close> so far\<close>

definition level_by_uuid :: "engine \<Rightarrow> string \<Rightarrow> string option" where
  \<comment> \<open>\<open>{v: k for k, v in self.sd_levels.items()}\<close>: the last entry of a uuid wins\<close>
  "level_by_uuid E = map_of (rev (map (\<lambda>(k, v). (v, k)) (sd_levels E)))"

definition call :: "wire_doc \<Rightarrow> state \<Rightarrow> state" where
  \<comment> \<open>\<open>_call\<close>: connect and publish\<close>
  "call xml s = s\<lparr>published := published s @ [xml]\<rparr>"

definition sleep :: "state \<Rightarrow> state" where
  "sleep s = s\<lparr>sleeps := Suc (sleeps s)\<rparr>"

subsection \<open>Reading the registry\<close>

definition read_parent :: "engine \<Rightarrow> string option \<Rightarrow> state \<Rightarrow> string option option \<times> state" where
  "read_parent E unit_uuid' s =
     (getDepartmentParent E (sd_reads s) unit_uuid', s\<lparr>sd_reads := Suc (sd_reads s)\<rparr>)"

definition read_department ::
  "engine \<Rightarrow> string option \<Rightarrow> string option \<Rightarrow> string option \<Rightarrow> state
    \<Rightarrow> (error + department option) \<times> state" where
  "read_department E unit_code' unit_uuid' unit_level' s =
     (let department_info = getDepartment E (sd_reads s) (py_or unit_uuid' unit_code') unit_level';
          s' = s\<lparr>sd_reads := Suc (sd_reads s)\<rparr>
      in case department_info of
           Multiple ds \<Rightarrow> (Inl Not_unique, s')
         | Single d \<Rightarrow> (Inr (Some d), s')
         | Absent \<Rightarrow> (Inr None, s'))"

subsection \<open>Validation of the unit code\<close>

definition syntax_errors :: "string option \<Rightarrow> code_error list" where
  \<comment> \<open>\<open>code_errors\<close> after lines 517 to 528\<close>
  "syntax_errors unit_code' =
     (let code_errors = []
      in case unit_code' of
           None \<Rightarrow> code_errors @ [Not_given]
         | Some c \<Rightarrow>
             (let code_errors =
                    (if length c < 2 then code_errors @ [Too_short]
                     else if length c > 4 then code_errors @ [Too_long]
                     else code_errors);
                  code_errors =
                    (if \<not> isalnum c then code_errors @ [Invalid_char] else code_errors);
                  code_errors =
                    (if upper c \<noteq> c then code_errors @ [Not_upper] else code_errors)
              in code_errors))"

definition validate_unit_code ::
  "engine \<Rightarrow> string option \<Rightarrow> bool \<Rightarrow> state \<Rightarrow> (error + code_error list) \<times> state" where
  "validate_unit_code E unit_code' can_exist s =
     (let code_errors = syntax_errors unit_code'
      in if code_errors = [] \<and> \<not> can_exist then
           (case read_department E unit_code' None None s of
              (Inl e, s') \<Rightarrow> (Inl e, s')
            | (Inr department, s') \<Rightarrow>
                (Inr (if department \<noteq> None then code_errors @ [In_use] else code_errors), s'))
         else (Inr code_errors, s))"

subsection \<open>Verification of a department\<close>

definition compare :: "string option \<Rightarrow> string option \<Rightarrow> field \<Rightarrow> field list \<Rightarrow> field list" where
  \<comment> \<open>\<open>compare\<close> with its default comparator \<open>operator.ne\<close>; the result is the new \<open>errors\<close>\<close>
  "compare actual expected err errors =
     (if expected \<noteq> None \<and> actual \<noteq> expected then errors @ [err] else errors)"

definition compare_startswith ::
  "string option \<Rightarrow> string option \<Rightarrow> field \<Rightarrow> field list \<Rightarrow> error + field list" where
  \<comment> \<open>\<open>compare\<close> with the comparator of line 425; \<open>expected.startswith(None)\<close> is a TypeError\<close>
  "compare_startswith actual expected err errors =
     (case expected of
        None \<Rightarrow> Inr errors
      | Some e \<Rightarrow>
          (case actual of
             None \<Rightarrow> Inl TypeError
           | Some a \<Rightarrow> Inr (if \<not> startswith e a then errors @ [err] else errors)))"

definition check_department ::
  "engine \<Rightarrow> payload \<Rightarrow> operation option \<Rightarrow> state
    \<Rightarrow> (error + department option \<times> field list) \<times> state" where
  "check_department E p oper s =
     (case read_department E (unit_code p) (unit_uuid p) (unit_level p) s of
        (Inl e, s1) \<Rightarrow> (Inl e, s1)
      | (Inr None, s1) \<Rightarrow> (Inr (None, [Unit]), s1)
      | (Inr (Some d), s1) \<Rightarrow>
          (let errors = [];
               errors =
                 (if oper = Some Ret \<or> oper = Some Import
                  then compare (ActivationDate d) (Some (from_date E)) Activation_Date errors
                  else errors)
           in case compare_startswith (DepartmentName d) (unit_name p) Name errors of
                Inl e \<Rightarrow> (Inl e, s1)
              | Inr errors \<Rightarrow>
                  (let errors = compare (DepartmentIdentifier d) (unit_code p) Unit_code errors;
                       errors = compare (DepartmentUUIDIdentifier d) (unit_uuid p) UUID errors;
                       errors = compare (DepartmentLevelIdentifier d) (unit_level p) Level errors
                   in case get_first (Option.bind (ContactInformation d) TelephoneNumberIdentifier) of
                        Inl e \<Rightarrow> (Inl e, s1)
                      | Inr actual_phone \<Rightarrow>
                          (let errors = compare actual_phone (phone p) Phone errors;
                               errors =
                                 compare (ProductionUnitIdentifier d) (pnummer p) Pnummer errors;
                               errors =
                                 (case adresse p of
                                    None \<Rightarrow> errors
                                  | Some a \<Rightarrow>
                                      (let actual = PostalAddress d;
                                           errors =
                                             compare (Option.bind actual StandardAddressIdentifier)
                                               (Some (AdresseNavn a)) Address errors;
                                           errors =
                                             compare (Option.bind actual PostalCode)
                                               (Some (PostKodeIdentifikator a)) Zip_code errors;
                                           errors =
                                             compare (Option.bind actual DistrictName)
                                               (Some (ByNavn a)) Postal_Area errors
                                       in errors))
                           in case parent p of
                                None \<Rightarrow> (Inr (Some d, errors), s1)
                              | Some par \<Rightarrow>
                                  (case read_parent E (unit_uuid p) s1 of
                                     (Some actual, s2) \<Rightarrow>
                                       (Inr (Some d,
                                          compare actual (Some (parent_uuid par)) Parent errors), s2)
                                   | (None, s2) \<Rightarrow> (Inr (Some d, errors @ [Parent]), s2))))))"

fun check_unit_loop ::
  "engine \<Rightarrow> payload \<Rightarrow> operation option \<Rightarrow> nat \<Rightarrow> department option \<times> field list option
    \<Rightarrow> state \<Rightarrow> (error + department option \<times> field list option) \<times> state" where
  \<comment> \<open>the \<open>for\<close> loop of \<open>_check_unit\<close> with its remaining iterations and the current values of
      \<open>unit\<close> and \<open>errors\<close>\<close>
  "check_unit_loop E p oper 0 ue s = (Inr ue, s)"
| "check_unit_loop E p oper (Suc n) ue s =
     (case check_department E p oper (sleep s) of
        (Inl e, s') \<Rightarrow> (Inl e, s')
      | (Inr (unit, errors), s') \<Rightarrow>
          if unit \<noteq> None then (Inr (unit, Some errors), s')
          else check_unit_loop E p oper n (unit, Some errors) s')"

definition check_unit ::
  "engine \<Rightarrow> payload \<Rightarrow> operation option \<Rightarrow> state \<Rightarrow> (error + department) \<times> state" where
  "check_unit E p oper s =
     (case check_unit_loop E p oper (amqp_check_retries E) (None, None) s of
        (Inl e, s') \<Rightarrow> (Inl e, s')
      | (Inr (None, errors), s') \<Rightarrow> (Inl (Unit_not_found (unit_uuid p)), s')
      | (Inr (Some unit, Some (e # es)), s') \<Rightarrow> (Inl (Fields_not_updated (e # es)), s')
      | (Inr (Some unit, _), s') \<Rightarrow> (Inr unit, s'))"

subsection \<open>Addresses\<close>

definition mo_to_sd_address :: "string option \<Rightarrow> error + sd_address option" where
  \<comment> \<open>unpacking anything but three parts is a ValueError\<close>
  "mo_to_sd_address address' =
     (case address' of
        None \<Rightarrow> Inr None
      | Some a \<Rightarrow>
          (case rsplit CHR '' '' 2 a of
             [street, zip_code, city] \<Rightarrow>
               (let street = (if endswith street '','' then butlast street else street)
                in Inr (Some \<lparr>AdresseNavn = strip street,
                              PostKodeIdentifikator = strip zip_code,
                              ByNavn = strip city\<rparr>))
           | _ \<Rightarrow> Inl ValueError))"

definition addrtypes :: "string list" where
  "addrtypes =
     [''adresser'', ''adgangsadresser'', ''historik/adresser'', ''historik/adgangsadresser'']"

fun get_dar_address_loop ::
  "engine \<Rightarrow> string \<Rightarrow> string list \<Rightarrow> state \<Rightarrow> (error + string list) \<times> state" where
  \<comment> \<open>the \<open>for\<close> loop over the endpoints left; its \<open>else\<close> branch is the empty list\<close>
  "get_dar_address_loop E addrid [] s = (Inl (Dar_not_found addrid), s)"
| "get_dar_address_loop E addrid (addrtype # rest) s =
     (let s' = s\<lparr>dawa_requests := dawa_requests s @ [addrtype]\<rparr>
      in case dawa E addrtype addrid of
           Request_failed \<Rightarrow> (Inl (Dar_lookup_failed addrid), s')
         | Json addrobjs \<Rightarrow>
             if addrobjs \<noteq> [] then (Inr addrobjs, s')
             else get_dar_address_loop E addrid rest s')"

definition get_dar_address :: "engine \<Rightarrow> string \<Rightarrow> state \<Rightarrow> (error + string) \<times> state" where
  \<comment> \<open>\<open>addrobjs.pop()\<close> is the last entry; the loop leaves a list that is not empty\<close>
  "get_dar_address E addrid s =
     (case get_dar_address_loop E addrid addrtypes s of
        (Inl e, s') \<Rightarrow> (Inl e, s')
      | (Inr addrobjs, s') \<Rightarrow> (Inr (last addrobjs), s'))"

type_synonym grouped = "(string \<rightharpoonup> string list) \<times> (string \<rightharpoonup> string list)"

fun grouped_addresses_loop ::
  "engine \<Rightarrow> address list \<Rightarrow> grouped \<Rightarrow> state \<Rightarrow> (error + grouped) \<times> state" where
  "grouped_addresses_loop E [] (scoped, keyed) s = (Inr (scoped, keyed), s)"
| "grouped_addresses_loop E (d # ds) (scoped, keyed) s =
     (if scope d = ''DAR'' then
        (case get_dar_address E (address_value d) s of
           (Inl e, s') \<Rightarrow> (Inl e, s')
         | (Inr label, s') \<Rightarrow>
             grouped_addresses_loop E ds
               (setdefault_append scoped (scope d) label,
                setdefault_append keyed (address_user_key d) (address_value d)) s')
      else
        grouped_addresses_loop E ds
          (setdefault_append scoped (scope d) (address_value d),
           setdefault_append keyed (address_user_key d) (address_value d)) s)"

definition grouped_addresses ::
  "engine \<Rightarrow> address list \<Rightarrow> state \<Rightarrow> (error + grouped) \<times> state" where
  "grouped_addresses E details' s = grouped_addresses_loop E details' (Map.empty, Map.empty) s"

definition formaalskode_key :: string where
  \<comment> \<open>the key of the purpose code; its fifth character is the letter a with a ring (code 229)\<close>
  "formaalskode_key = ''Form'' @ [char_of (229 :: nat)] @ ''lskode''"

definition payload_edit_dict ::
  "string \<Rightarrow> mo_unit \<Rightarrow> grouped \<Rightarrow> error + payload" where
  \<comment> \<open>the dictionary of lines 739 to 750, its entries evaluated in order\<close>
  "payload_edit_dict unit_uuid' unit' g =
     (case g of (scoped, keyed) \<Rightarrow>
        (case get_first (scoped ''PHONE'') of Inl e \<Rightarrow> Inl e | Inr phone' \<Rightarrow>
        (case get_first (scoped ''PNUMBER'') of Inl e \<Rightarrow> Inl e | Inr pnummer' \<Rightarrow>
        (case get_first (scoped ''DAR'') of Inl e \<Rightarrow> Inl e | Inr dar \<Rightarrow>
        (case mo_to_sd_address dar of Inl e \<Rightarrow> Inl e | Inr adresse' \<Rightarrow>
        (case get_first (keyed formaalskode_key) of Inl e \<Rightarrow> Inl e | Inr formaalskode' \<Rightarrow>
        (case get_first (keyed ''Skolekode'') of Inl e \<Rightarrow> Inl e | Inr skolekode' \<Rightarrow>
           Inr \<lparr>unit_name = Some (name unit'),
                unit_code = user_key unit',
                unit_uuid = Some unit_uuid',
                unit_level = None,
                phone = phone',
                pnummer = pnummer',
                adresse = adresse',
                parent = None,
                formaalskode = formaalskode',
                skolekode = skolekode'\<rparr>)))))))"

definition payload_edit ::
  "engine \<Rightarrow> string \<Rightarrow> mo_unit \<Rightarrow> address list \<Rightarrow> state \<Rightarrow> (error + payload) \<times> state" where
  "payload_edit E unit_uuid' unit' addresses s =
     (case grouped_addresses E addresses s of
        (Inl e, s') \<Rightarrow> (Inl e, s')
      | (Inr (scoped, keyed), s') \<Rightarrow>
          if scoped ''PNUMBER'' \<noteq> None \<and> scoped ''DAR'' = None
          then (Inl Postal_before_pnumber, s')
          else (payload_edit_dict unit_uuid' unit' (scoped, keyed), s'))"

definition payload_create :: "engine \<Rightarrow> string \<Rightarrow> mo_unit \<Rightarrow> mo_unit \<Rightarrow> error + payload" where
  \<comment> \<open>\<open>not unit_level\<close> holds of None and of the empty string\<close>
  "payload_create E unit_uuid' unit' parent' =
     (case py_or (level_by_uuid E (org_unit_level unit')) None of
        None \<Rightarrow> Inl Unknown_level
      | Some unit_level' \<Rightarrow>
          (case py_or (level_by_uuid E (org_unit_level parent')) None of
             None \<Rightarrow> Inl Unknown_parent_level
           | Some parent_level' \<Rightarrow>
               Inr \<lparr>unit_name = Some (name unit'),
                    unit_code = user_key unit',
                    unit_uuid = Some unit_uuid',
                    unit_level = Some unit_level',
                    phone = None,
                    pnummer = None,
                    adresse = None,
                    parent = Some \<lparr>parent_unit_code = user_key parent',
                                   parent_uuid = uuid parent',
                                   parent_level = parent_level'\<rparr>,
                    formaalskode = None,
                    skolekode = None\<rparr>))"

subsection \<open>Submission\<close>

definition level_index :: "engine \<Rightarrow> string option \<Rightarrow> error + nat" where
  \<comment> \<open>\<open>list(self.sd_levels.keys()).index(level)\<close>; None is not in the list\<close>
  "level_index E l =
     (case l of None \<Rightarrow> Inl ValueError | Some k \<Rightarrow> index (map fst (sd_levels E)) k)"

definition check_levels :: "engine \<Rightarrow> payload \<Rightarrow> department \<Rightarrow> error + unit" where
  \<comment> \<open>lines 581 to 587, and the same lines 629 to 634\<close>
  "check_levels E p parent_department =
     (case level_index E (unit_level p) of
        Inl e \<Rightarrow> Inl e
      | Inr unit_index \<Rightarrow>
          (case DepartmentLevelIdentifier parent_department of
             None \<Rightarrow> Inl KeyError
           | Some l \<Rightarrow>
               (case level_index E (Some l) of
                  Inl e \<Rightarrow> Inl e
                | Inr parent_index \<Rightarrow>
                    if \<not> unit_index > parent_index then Inl Level_mismatch else Inr ())))"

definition submit ::
  "engine \<Rightarrow> payload \<Rightarrow> bool \<Rightarrow> (payload \<Rightarrow> wire_doc) \<Rightarrow> bool \<Rightarrow> state
    \<Rightarrow> (error + string option) \<times> state" where
  \<comment> \<open>the body shared by \<open>_create_unit\<close> and \<open>_move_unit\<close>, which differ in \<open>can_exist\<close> and in
      the renderer; a call without \<open>parent\<close> is a TypeError\<close>
  "submit E p can_exist render test_run s =
     (case parent p of
        None \<Rightarrow> (Inl TypeError, s)
      | Some par \<Rightarrow>
          (case validate_unit_code E (unit_code p) can_exist s of
             (Inl e, s1) \<Rightarrow> (Inl e, s1)
           | (Inr code_errors, s1) \<Rightarrow>
               if code_errors \<noteq> [] then (Inl (Code_errors code_errors), s1)
               else
                 (case read_department E (parent_unit_code par) None (Some (parent_level par)) s1 of
                    (Inl e, s2) \<Rightarrow> (Inl e, s2)
                  | (Inr None, s2) \<Rightarrow> (Inl Parent_not_found, s2)
                  | (Inr (Some parent_department), s2) \<Rightarrow>
                      (case check_levels E p parent_department of
                         Inl e \<Rightarrow> (Inl e, s2)
                       | Inr _ \<Rightarrow>
                           (let xml = render p
                            in (Inr (unit_uuid p), if \<not> test_run then call xml s2 else s2))))))"

definition priv_create_unit ::
  "engine \<Rightarrow> payload \<Rightarrow> bool \<Rightarrow> state \<Rightarrow> (error + string option) \<times> state" where
  \<comment> \<open>\<open>_create_unit\<close>\<close>
  "priv_create_unit E p test_run s = submit E p False Xml_import test_run s"

definition priv_move_unit ::
  "engine \<Rightarrow> payload \<Rightarrow> bool \<Rightarrow> state \<Rightarrow> (error + string option) \<times> state" where
  \<comment> \<open>\<open>_move_unit\<close>\<close>
  "priv_move_unit E p test_run s = submit E p True Xml_flyt test_run s"

definition edit_unit :: "payload \<Rightarrow> bool \<Rightarrow> state \<Rightarrow> string option \<times> state" where
  "edit_unit p test_run s =
     (let xml = Xml_ret p in (unit_uuid p, if \<not> test_run then call xml s else s))"

definition update_ou ::
  "engine \<Rightarrow> string \<Rightarrow> mo_unit \<Rightarrow> address list \<Rightarrow> bool \<Rightarrow> state \<Rightarrow> (error + department) \<times> state" where
  "update_ou E unit_uuid' unit_data addresses dry_run s =
     (case payload_edit E unit_uuid' unit_data addresses s of
        (Inl e, s1) \<Rightarrow> (Inl e, s1)
      | (Inr p, s1) \<Rightarrow>
          (case edit_unit p dry_run s1 of (_, s2) \<Rightarrow> check_unit E p (Some Ret) s2))"

subsection \<open>The public operations\<close>

definition rename_unit ::
  "engine \<Rightarrow> string \<Rightarrow> string \<Rightarrow> string \<Rightarrow> bool \<Rightarrow> state \<Rightarrow> (error + department) \<times> state" where
  "rename_unit E unit_uuid' new_unit_name at dry_run s =
     (let unit_data = read_ou E unit_uuid' (Some at);
          unit_data = unit_data\<lparr>name := new_unit_name\<rparr>
      in case validate_unit_code E (user_key unit_data) True s of
           (Inl e, s1) \<Rightarrow> (Inl e, s1)
         | (Inr code_errors, s1) \<Rightarrow>
             if code_errors \<noteq> [] then (Inl (Code_errors code_errors), s1)
             else
               (let addresses = read_ou_address E unit_uuid' (Some at)
                in update_ou E unit_uuid' unit_data addresses dry_run s1))"

definition move_unit ::
  "engine \<Rightarrow> string \<Rightarrow> string \<Rightarrow> string \<Rightarrow> bool \<Rightarrow> state \<Rightarrow> (error + department) \<times> state" where
  "move_unit E unit_uuid' new_parent_uuid at dry_run s =
     (let unit_data = read_ou E unit_uuid' (Some at)
      in case validate_unit_code E (user_key unit_data) True s of
           (Inl e, s1) \<Rightarrow> (Inl e, s1)
         | (Inr code_errors, s1) \<Rightarrow>
             if code_errors \<noteq> [] then (Inl (Code_errors code_errors), s1)
             else
               (let new_parent_unit = read_ou E new_parent_uuid None
                in case payload_create E unit_uuid' unit_data new_parent_unit of
                     Inl e \<Rightarrow> (Inl e, s1)
                   | Inr p \<Rightarrow>
                       (case priv_move_unit E p dry_run s1 of
                          (Inl e, s2) \<Rightarrow> (Inl e, s2)
                        | (Inr _, s2) \<Rightarrow>
                            check_unit E (p\<lparr>unit_name := None\<rparr>) (Some Flyt) s2)))"

definition create_unit ::
  "engine \<Rightarrow> string \<Rightarrow> mo_unit \<Rightarrow> mo_unit \<Rightarrow> bool \<Rightarrow> state \<Rightarrow> (error + department) \<times> state" where
  "create_unit E unit_uuid' unit_data parent_data dry_run s =
     (case payload_create E unit_uuid' unit_data parent_data of
        Inl e \<Rightarrow> (Inl e, s)
      | Inr p \<Rightarrow>
          (case priv_create_unit E p dry_run s of
             (Inl e, s1) \<Rightarrow> (Inl e, s1)
           | (Inr _, s1) \<Rightarrow>
               if details unit_data \<noteq> [] then
                 (let addresses = details unit_data
                  in case update_ou E unit_uuid' unit_data addresses dry_run s1 of
                       (Inl e, s2) \<Rightarrow> (Inl e, s2)
                     | (Inr _, s2) \<Rightarrow> check_unit E p (Some Import) s2)
               else check_unit E p (Some Import) s1))"

definition create_address ::
  "engine \<Rightarrow> string \<Rightarrow> address \<Rightarrow> string \<Rightarrow> bool \<Rightarrow> state \<Rightarrow> (error + department) \<times> state" where
  "create_address E unit_uuid' address_data at dry_run s =
     (let unit_data = read_ou E unit_uuid' (Some at);
          previous_addresses = read_ou_address E unit_uuid' (Some at);
          addresses = [address_data] @ previous_addresses
      in update_ou E unit_uuid' unit_data addresses dry_run s)"

definition edit_address ::
  "engine \<Rightarrow> string \<Rightarrow> address \<Rightarrow> string \<Rightarrow> bool \<Rightarrow> state \<Rightarrow> (error + department) \<times> state" where
  "edit_address E unit_uuid' address_data at dry_run s =
     create_address E unit_uuid' address_data at dry_run s"

subsection \<open>Validation failures\<close>

fun validation_failure :: "error \<Rightarrow> bool" where
  \<comment> \<open>the errors raised by the checks of the input: a bad unit code, a level that does not fit
      the parent, a level that is not known, a production unit number without postal address\<close>
  "validation_failure (Code_errors cs) = True"
| "validation_failure Level_mismatch = True"
| "validation_failure Unknown_level = True"
| "validation_failure Unknown_parent_level = True"
| "validation_failure Postal_before_pnumber = True"
| "validation_failure e = False"

subsection \<open>Example data\<close>

text \<open>Two levels, a unit and its parent, and collaborators given by their answers.\<close>

definition ex_levels :: "(string \<times> string) list" where
  "ex_levels = [(''NY1-niveau'', ''uuid-a''), (''Afdelings-niveau'', ''uuid-b'')]"

definition ex_mo_unit :: "string \<Rightarrow> string \<Rightarrow> string \<Rightarrow> string \<Rightarrow> address list \<Rightarrow> mo_unit" where
  "ex_mo_unit name' key uuid' level' details' =
     \<lparr>name = name', user_key = Some key, uuid = uuid', org_unit_level = level',
      details = details'\<rparr>"

definition ex_read_ou :: "address list \<Rightarrow> string \<Rightarrow> string option \<Rightarrow> mo_unit" where
  \<comment> \<open>the parent is unit \<open>u-11\<close> on the upper level; every other unit is on the lower level\<close>
  "ex_read_ou details' u at =
     (if u = ''u-11'' then ex_mo_unit ''Parent'' ''PA'' ''u-11'' ''uuid-a'' []
      else ex_mo_unit ''A-sdm1'' ''AB12'' u ''uuid-b'' details')"

definition ex_department :: "string \<Rightarrow> string \<Rightarrow> string \<Rightarrow> department" where
  "ex_department name' level' date' =
     \<lparr>ActivationDate = Some date', DepartmentName = Some name',
      DepartmentIdentifier = Some ''AB12'', DepartmentUUIDIdentifier = Some ''u-22'',
      DepartmentLevelIdentifier = Some level', ContactInformation = None,
      ProductionUnitIdentifier = None, PostalAddress = None\<rparr>"

definition ex_engine ::
  "address list \<Rightarrow> (nat \<Rightarrow> string option \<Rightarrow> string option \<Rightarrow> lookup)
    \<Rightarrow> (string \<Rightarrow> string \<Rightarrow> dawa_response) \<Rightarrow> engine" where
  "ex_engine details' reg dw =
     \<lparr>sd_levels = ex_levels, from_date = ''2019-07-01'', amqp_check_retries = 3,
      read_ou = ex_read_ou details', read_ou_address = (\<lambda>u at. details'),
      getDepartment = reg, getDepartmentParent = (\<lambda>n u. Some (Some ''u-11'')), dawa = dw\<rparr>"

definition ex_state :: state where
  "ex_state = \<lparr>published = [], sd_reads = 0, dawa_requests = [], sleeps = 0\<rparr>"

definition ex_payload :: "string option \<Rightarrow> string option \<Rightarrow> string option \<Rightarrow> payload" where
  \<comment> \<open>what is expected of the name, the code and the uuid; nothing else is expected\<close>
  "ex_payload name' code uuid' =
     \<lparr>unit_name = name', unit_code = code, unit_uuid = uuid', unit_level = None, phone = None,
      pnummer = None, adresse = None, parent = None, formaalskode = None, skolekode = None\<rparr>"

definition ex_renamed :: "nat \<Rightarrow> string option \<Rightarrow> string option \<Rightarrow> lookup" where
  \<comment> \<open>a registry that has the old name at the first read and the new name from then on\<close>
  "ex_renamed n i l =
     Single (ex_department (if n = 0 then ''Old'' else ''New'') ''Afdelings-niveau'' ''2019-07-01'')"

definition ex_late :: "nat \<Rightarrow> string option \<Rightarrow> string option \<Rightarrow> lookup" where
  \<comment> \<open>a registry that has no unit at the first read and a unit of another name from then on\<close>
  "ex_late n i l =
     (if n = 0 then Absent else Single (ex_department ''Old'' ''Afdelings-niveau'' ''2019-07-01''))"

definition ex_never :: "nat \<Rightarrow> string option \<Rightarrow> string option \<Rightarrow> lookup" where
  "ex_never n i l = Absent"

definition ex_found :: "string \<Rightarrow> string \<Rightarrow> string \<Rightarrow> nat \<Rightarrow> string option \<Rightarrow> string option \<Rightarrow> lookup" where
  \<comment> \<open>a registry that has the same unit at every read\<close>
  "ex_found name' level' date' n i l = Single (ex_department name' level' date')"

definition ex_no_dawa :: "string \<Rightarrow> string \<Rightarrow> dawa_response" where
  "ex_no_dawa addrtype addrid = Json []"

definition ex_moved :: "nat \<Rightarrow> string option \<Rightarrow> string option \<Rightarrow> lookup" where
  \<comment> \<open>a registry that has the parent, and the unit on the upper level under another name\<close>
  "ex_moved n i l =
     (if i = Some ''PA''
      then Single ((ex_department ''Parent'' ''NY1-niveau'' ''2019-07-01'')
                     \<lparr>DepartmentIdentifier := Some ''PA'', DepartmentUUIDIdentifier := Some ''u-11''\<rparr>)
      else Single (ex_department ''Zeta'' ''NY1-niveau'' ''2019-07-01''))"

definition ex_dawa_fail_second :: "string \<Rightarrow> string \<Rightarrow> dawa_response" where
  \<comment> \<open>nothing at the first endpoint, a failing request at the second, an address at the third\<close>
  "ex_dawa_fail_second addrtype addrid =
     (if addrtype = ''adresser'' then Json []
      else if addrtype = ''adgangsadresser'' then Request_failed
      else Json [''Toftebjerghaven 4, 2750 Ballerup''])"

definition ex_dawa_third :: "string \<Rightarrow> string \<Rightarrow> dawa_response" where
  \<comment> \<open>nothing at the first two endpoints, two entries at the third\<close>
  "ex_dawa_third addrtype addrid =
     (if addrtype = ''historik/adresser''
      then Json [''Banegaardspladsen 1, 2750 Ballerup'', ''Toftebjerghaven 4, 2750 Ballerup'']
      else Json [])"


definition ex_address :: "string \<Rightarrow> string \<Rightarrow> address" where
  "ex_address scope' value' = \<lparr>scope = scope', address_user_key = ''key'', address_value = value'\<rparr>"

definition ex_create_payload :: "string \<Rightarrow> payload" where
  \<comment> \<open>what \<open>_payload_create\<close> builds for a unit on the given level under the example parent\<close>
  "ex_create_payload level' =
     \<lparr>unit_name = Some ''A-sdm1'', unit_code = Some ''AB12'', unit_uuid = Some ''u-22'',
      unit_level = Some level', phone = None, pnummer = None, adresse = None,
      parent = Some \<lparr>parent_unit_code = Some ''PA'', parent_uuid = ''u-11'',
                     parent_level = ''NY1-niveau''\<rparr>,
      formaalskode = None, skolekode = None\<rparr>"

definition ex_parent_department :: department where
  "ex_parent_department =
     (ex_department ''Parent'' ''NY1-niveau'' ''2019-07-01'')
       \<lparr>DepartmentIdentifier := Some ''PA'', DepartmentUUIDIdentifier := Some ''u-11''\<rparr>"

definition ex_parent_only :: "nat \<Rightarrow> string option \<Rightarrow> string option \<Rightarrow> lookup" where
  \<comment> \<open>a registry that has the parent and no other unit\<close>
  "ex_parent_only n i l = (if i = Some ''PA'' then Single ex_parent_department else Absent)"

definition ex_new_unit :: "string \<Rightarrow> mo_unit" where
  \<comment> \<open>a unit to create, on the level of the given class, with a production unit number and
      no postal address\<close>
  "ex_new_unit level' =
     ex_mo_unit ''A-sdm1'' ''AB12'' ''u-22'' level' [ex_address ''PNUMBER'' ''1234567890'']"

definition ex_parent :: mo_unit where
  "ex_parent = ex_mo_unit ''Parent'' ''PA'' ''u-11'' ''uuid-a'' []"

section \<open>Properties\<close>

subsection \<open>Syntax of the unit code\<close>





lemma validate_can_exist:
  "validate_unit_code E code True s = (Inr (syntax_errors code), s)"
  by (simp add: validate_unit_code_def Let_def)




subsection \<open>Verification\<close>

lemmas ex_defs = ex_levels_def ex_mo_unit_def ex_read_ou_def ex_department_def ex_engine_def
  ex_state_def ex_payload_def ex_renamed_def ex_late_def ex_never_def ex_found_def ex_no_dawa_def
  ex_moved_def

lemmas check_defs = check_unit_def check_department_def read_department_def read_parent_def
  compare_def compare_startswith_def startswith_def get_first_def py_or_def sleep_def

lemma startswith_prefix: "startswith s p \<longleftrightarrow> prefix p s"
  unfolding startswith_def prefix_def
  by (metis append_eq_conv_conj append_take_drop_id)

lemma mem_compare:
  "x \<in> set (compare a e f errs) \<longleftrightarrow> x \<in> set errs \<or> (x = f \<and> e \<noteq> None \<and> a \<noteq> e)"
  by (auto simp: compare_def)



lemma mem_compare_startswith:
  assumes "compare_startswith a e f errs = Inr errs'"
  shows "x \<in> set errs' \<longleftrightarrow>
         x \<in> set errs \<or> (x = f \<and> (\<exists>ev av. e = Some ev \<and> a = Some av \<and> \<not> startswith ev av))"
  using assms by (auto simp: compare_startswith_def split: option.splits if_splits)

lemma compare_startswith_Inl:
  "compare_startswith a e f errs = Inl x \<longleftrightarrow> x = TypeError \<and> e \<noteq> None \<and> a = None"
  by (auto simp: compare_startswith_def split: option.splits)

lemma get_first_Inl: "get_first r = Inl x \<longleftrightarrow> x = IndexError \<and> r = Some []"
  by (auto simp: get_first_def split: option.splits list.splits)

lemma read_parent_reads: "read_parent E u s = (r, s') \<Longrightarrow> published s' = published s"
  by (auto simp: read_parent_def)

lemma compare_startswith_Inr_name:
  "compare_startswith a (Some e) f errs = Inr errs' \<Longrightarrow> \<exists>av. a = Some av"
  by (auto simp: compare_startswith_def split: option.splits)

lemma check_department_found:
  assumes "check_department E p oper s = (Inr (Some d, errs), s')"
  shows "\<exists>s1. read_department E (unit_code p) (unit_uuid p) (unit_level p) s = (Inr (Some d), s1)"
    and "Name \<in> set errs \<longleftrightarrow>
           (\<exists>ev av. unit_name p = Some ev \<and> DepartmentName d = Some av \<and> \<not> startswith ev av)"
    and "unit_name p \<noteq> None \<longrightarrow> DepartmentName d \<noteq> None"
  using assms
  unfolding check_department_def Let_def
  by (auto split: prod.splits sum.splits option.splits
           simp: mem_compare mem_compare_startswith dest: compare_startswith_Inr_name)

lemma check_department_not_found:
  assumes "check_department E p oper s = (Inr (None, errs), s')"
  shows "errs = [Unit]"
  using assms unfolding check_department_def Let_def
  by (auto split: prod.splits sum.splits option.splits)

lemma read_department_state:
  "read_department E c u l s = (r, s') \<Longrightarrow> s' = s\<lparr>sd_reads := Suc (sd_reads s)\<rparr>"
  by (auto simp: read_department_def Let_def split: lookup.splits)

lemma read_department_Inl: "read_department E c u l s = (Inl e, s') \<Longrightarrow> e = Not_unique"
  by (auto simp: read_department_def Let_def split: lookup.splits)

lemma check_department_Inl:
  assumes "check_department E p oper s = (Inl e, s')"
  shows "e = Not_unique \<or> e = TypeError \<or> e = IndexError"
  using assms unfolding check_department_def Let_def
  by (auto split: prod.splits sum.splits option.splits
      simp: compare_startswith_Inl get_first_Inl dest: read_department_Inl)

lemma check_department_effects:
  assumes "check_department E p oper s = (r, s')"
  shows "published s' = published s" and "sleeps s' = sleeps s"
    and "dawa_requests s' = dawa_requests s" and "sd_reads s < sd_reads s'"
  using assms unfolding check_department_def Let_def
  by (auto split: prod.splits sum.splits option.splits
      dest!: read_department_state simp: read_parent_def)

lemma check_department_no_name:
  assumes "check_department E p oper s = (Inr (u, errs), s')" and "unit_name p = None"
  shows "Name \<notin> set errs"
proof (cases u)
  case None
  with assms show ?thesis by (auto dest: check_department_not_found)
next
  case (Some d)
  with assms show ?thesis by (auto dest: check_department_found(2))
qed

lemma check_unit_loop_Inl:
  "check_unit_loop E p oper n ue s = (Inl e, s') \<Longrightarrow>
     e = Not_unique \<or> e = TypeError \<or> e = IndexError"
proof (induction n arbitrary: ue s)
  case 0
  then show ?case by simp
next
  case (Suc n)
  then show ?case
    by (auto split: prod.splits sum.splits if_splits dest: check_department_Inl)
qed

lemma check_unit_loop_found:
  "check_unit_loop E p oper n (None, y) s = (Inr (Some d, x), s') \<Longrightarrow>
     \<exists>errs s0. x = Some errs \<and> check_department E p oper s0 = (Inr (Some d, errs), s')"
proof (induction n arbitrary: y s)
  case 0
  then show ?case by simp
next
  case (Suc n)
  then show ?case
    by (auto split: prod.splits sum.splits if_splits)
qed

lemma check_unit_loop_split:
  "check_unit_loop E p oper k ue s = (Inr (None, x), sk) \<Longrightarrow>
     check_unit_loop E p oper (k + m) ue s = check_unit_loop E p oper m (None, x) sk"
proof (induction k arbitrary: ue s)
  case 0
  then show ?case by simp
next
  case (Suc k)
  then show ?case
    by (auto split: prod.splits sum.splits if_splits)
qed

lemma check_unit_loop_sleeps_le:
  "check_unit_loop E p oper n ue s = (r, s') \<Longrightarrow> sleeps s' \<le> sleeps s + n"
proof (induction n arbitrary: ue s)
  case 0
  then show ?case by simp
next
  case (Suc n)
  show ?case
  proof (cases "check_department E p oper (sleep s)")
    case (Pair r1 s1)
    have s1: "sleeps s1 = Suc (sleeps s)"
      using check_department_effects(2)[OF Pair] by (simp add: sleep_def)
    show ?thesis
    proof (cases r1)
      case (Inl e)
      with Pair Suc.prems s1 show ?thesis by auto
    next
      case (Inr ue')
      obtain u errs where ue': "ue' = (u, errs)" by (cases ue')
      show ?thesis
      proof (cases u)
        case None
        with Pair Inr ue' Suc.prems have "check_unit_loop E p oper n (None, Some errs) s1 = (r, s')"
          by simp
        from Suc.IH[OF this] s1 show ?thesis by simp
      next
        case (Some d)
        with Pair Inr ue' Suc.prems s1 show ?thesis by auto
      qed
    qed
  qed
qed

lemma check_unit_loop_sleeps_none:
  "check_unit_loop E p oper n ue s = (Inr (None, x), s') \<Longrightarrow> sleeps s' = sleeps s + n"
proof (induction n arbitrary: ue s)
  case 0
  then show ?case by simp
next
  case (Suc n)
  then show ?case
    by (auto split: prod.splits sum.splits if_splits
        dest!: check_department_effects(2) simp: sleep_def)
qed

lemma check_unit_Fields:
  assumes "check_unit E p oper s = (Inl (Fields_not_updated errs), s')"
  shows "\<exists>d s0. check_department E p oper s0 = (Inr (Some d, errs), s')"
proof -
  from assms obtain d where
    "check_unit_loop E p oper (amqp_check_retries E) (None, None) s = (Inr (Some d, Some errs), s')"
    unfolding check_unit_def
    by (auto split: prod.splits sum.splits option.splits list.splits dest: check_unit_loop_Inl)
  from check_unit_loop_found[OF this] show ?thesis by auto
qed

text \<open>
  C5. When the registry has the unit with a name and a name is expected, the verification
  of the department reports the field \<open>Name\<close> if and only if the observed name is not a
  prefix of the expected name (a proper prefix and the expected name itself are no
  mismatch). The verification returns the unit with its mismatches, unless the unit has an
  empty list of telephone numbers, where reading the first one is an IndexError.
\<close>

theorem name_compared_by_prefix:
  assumes "read_department E (unit_code p) (unit_uuid p) (unit_level p) s = (Inr (Some d), s1)"
    and "DepartmentName d = Some observed"
    and "unit_name p = Some expected"
  shows "case check_department E p oper s of
           (Inl e, _) \<Rightarrow>
             e = IndexError \<and>
             Option.bind (ContactInformation d) TelephoneNumberIdentifier = Some []
         | (Inr (u, errs), _) \<Rightarrow>
             u = Some d \<and> (Name \<in> set errs \<longleftrightarrow> \<not> prefix observed expected)"
  using assms unfolding check_department_def Let_def
  by (auto split: prod.splits sum.splits option.splits
      simp: mem_compare mem_compare_startswith compare_startswith_Inl get_first_Inl
        startswith_prefix)


theorem name_compared_by_prefix_witness:
  "read_department (ex_engine [] (ex_found ''A-sdm'' ''Afdelings-niveau'' ''2019-07-01'') ex_no_dawa)
     (Some ''AB12'') (Some ''u-22'') None ex_state =
     (Inr (Some (ex_department ''A-sdm'' ''Afdelings-niveau'' ''2019-07-01'')),
      ex_state\<lparr>sd_reads := 1\<rparr>) \<and>
   prefix ''A-sdm'' ''A-sdm1'' \<and>
   check_department (ex_engine [] (ex_found ''A-sdm'' ''Afdelings-niveau'' ''2019-07-01'') ex_no_dawa)
     (ex_payload (Some ''A-sdm1'') (Some ''AB12'') (Some ''u-22'')) (Some Ret) ex_state =
     (Inr (Some (ex_department ''A-sdm'' ''Afdelings-niveau'' ''2019-07-01''), []),
      ex_state\<lparr>sd_reads := 1\<rparr>)"
proof -
  let ?E = "ex_engine [] (ex_found ''A-sdm'' ''Afdelings-niveau'' ''2019-07-01'') ex_no_dawa"
  let ?p = "ex_payload (Some ''A-sdm1'') (Some ''AB12'') (Some ''u-22'')"
  let ?d = "ex_department ''A-sdm'' ''Afdelings-niveau'' ''2019-07-01''"
  have h1: "read_department ?E (unit_code ?p) (unit_uuid ?p) (unit_level ?p) ex_state =
      (Inr (Some ?d), ex_state\<lparr>sd_reads := 1\<rparr>)"
    by (simp add: ex_defs check_defs)
  have h2: "DepartmentName ?d = Some ''A-sdm''" by (simp add: ex_defs)
  have h3: "unit_name ?p = Some ''A-sdm1''" by (simp add: ex_defs)
  show ?thesis
    using name_compared_by_prefix [OF h1 h2 h3, of "Some Ret"]
    by (simp add: ex_defs check_defs)
qed

text \<open>
  C1, as the code has it. The loop makes at most the configured number of attempts and
  stops at the first attempt that finds the unit, with or without mismatches: when \<open>k\<close>
  attempts have found nothing and the next one, within the configured number, finds the unit,
  the verification ends there, after \<open>k + 1\<close> waits, with the unit when that attempt has no
  mismatch and with the mismatches of that attempt otherwise. When all attempts find
  nothing, the unit is reported as not found.
\<close>

theorem check_unit_stops_at_first_found:
  "(k < amqp_check_retries E \<and>
    check_unit_loop E p oper k (None, None) s = (Inr (None, x), sk) \<and>
    check_department E p oper (sleep sk) = (Inr (Some d, errs), s')
    \<longrightarrow> check_unit E p oper s =
          (if errs = [] then Inr d else Inl (Fields_not_updated errs), s') \<and>
        sleeps s' = sleeps s + Suc k) \<and>
   (check_unit_loop E p oper (amqp_check_retries E) (None, None) s = (Inr (None, x), s')
    \<longrightarrow> check_unit E p oper s = (Inl (Unit_not_found (unit_uuid p)), s') \<and>
        sleeps s' = sleeps s + amqp_check_retries E) \<and>
   (check_unit E p oper s = (r, s') \<longrightarrow> sleeps s' \<le> sleeps s + amqp_check_retries E)"
proof (intro conjI impI)
  assume a: "k < amqp_check_retries E \<and>
    check_unit_loop E p oper k (None, None) s = (Inr (None, x), sk) \<and>
    check_department E p oper (sleep sk) = (Inr (Some d, errs), s')"
  then obtain m where m: "amqp_check_retries E = k + Suc m"
    by (metis less_imp_Suc_add add_Suc_right)
  from a have "check_unit_loop E p oper (amqp_check_retries E) (None, None) s =
      check_unit_loop E p oper (Suc m) (None, x) sk"
    unfolding m by (intro check_unit_loop_split) simp
  also from a have "\<dots> = (Inr (Some d, Some errs), s')" by simp
  finally show "check_unit E p oper s =
      (if errs = [] then Inr d else Inl (Fields_not_updated errs), s')"
    by (simp add: check_unit_def split: list.splits)
  from a have "sleeps sk = sleeps s + k" by (auto dest: check_unit_loop_sleeps_none)
  moreover from a have "sleeps s' = sleeps (sleep sk)" by (auto dest: check_department_effects(2))
  ultimately show "sleeps s' = sleeps s + Suc k" by (simp add: sleep_def)
next
  assume a: "check_unit_loop E p oper (amqp_check_retries E) (None, None) s = (Inr (None, x), s')"
  then show "check_unit E p oper s = (Inl (Unit_not_found (unit_uuid p)), s')"
    by (simp add: check_unit_def)
  from a show "sleeps s' = sleeps s + amqp_check_retries E"
    by (rule check_unit_loop_sleeps_none)
next
  assume "check_unit E p oper s = (r, s')"
  then show "sleeps s' \<le> sleeps s + amqp_check_retries E"
    unfolding check_unit_def
    by (auto split: prod.splits sum.splits option.splits list.splits
        dest: check_unit_loop_sleeps_le)
qed


theorem check_unit_stops_at_first_found_witness:
  "check_unit_loop (ex_engine [] ex_late ex_no_dawa)
     (ex_payload (Some ''New'') (Some ''AB12'') (Some ''u-22'')) (Some Ret) 1 (None, None) ex_state =
     (Inr (None, Some [Unit]), ex_state\<lparr>sd_reads := 1, sleeps := 1\<rparr>) \<and>
   check_department (ex_engine [] ex_late ex_no_dawa)
     (ex_payload (Some ''New'') (Some ''AB12'') (Some ''u-22'')) (Some Ret)
     (sleep (ex_state\<lparr>sd_reads := 1, sleeps := 1\<rparr>)) =
     (Inr (Some (ex_department ''Old'' ''Afdelings-niveau'' ''2019-07-01''), [Name]),
      ex_state\<lparr>sd_reads := 2, sleeps := 2\<rparr>) \<and>
   check_unit (ex_engine [] ex_late ex_no_dawa)
     (ex_payload (Some ''New'') (Some ''AB12'') (Some ''u-22'')) (Some Ret) ex_state =
     (Inl (Fields_not_updated [Name]), ex_state\<lparr>sd_reads := 2, sleeps := 2\<rparr>) \<and>
   check_unit (ex_engine [] ex_never ex_no_dawa)
     (ex_payload (Some ''New'') (Some ''AB12'') (Some ''u-22'')) (Some Ret) ex_state =
     (Inl (Unit_not_found (Some ''u-22'')), ex_state\<lparr>sd_reads := 3, sleeps := 3\<rparr>)"
proof -
  let ?p = "ex_payload (Some ''New'') (Some ''AB12'') (Some ''u-22'')"
  let ?E = "ex_engine [] ex_late ex_no_dawa"
  let ?N = "ex_engine [] ex_never ex_no_dawa"
  let ?s1 = "ex_state\<lparr>sd_reads := 1, sleeps := 1\<rparr>"
  let ?s2 = "ex_state\<lparr>sd_reads := 2, sleeps := 2\<rparr>"
  let ?s3 = "ex_state\<lparr>sd_reads := 3, sleeps := 3\<rparr>"
  let ?d = "ex_department ''Old'' ''Afdelings-niveau'' ''2019-07-01''"
  have k: "1 < amqp_check_retries ?E" by (simp add: ex_defs)
  have h1: "check_unit_loop ?E ?p (Some Ret) 1 (None, None) ex_state = (Inr (None, Some [Unit]), ?s1)"
    by (simp add: ex_defs check_defs)
  have h2: "check_department ?E ?p (Some Ret) (sleep ?s1) = (Inr (Some ?d, [Name]), ?s2)"
    by (simp add: ex_defs check_defs)
  have h3: "check_unit_loop ?N ?p (Some Ret) (amqp_check_retries ?N) (None, None) ex_state =
      (Inr (None, Some [Unit]), ?s3)"
    by (simp add: ex_defs check_defs numeral_3_eq_3)
  have a: "check_unit ?E ?p (Some Ret) ex_state = (Inl (Fields_not_updated [Name]), ?s2)"
    using check_unit_stops_at_first_found
      [where k = 1 and E = ?E and p = ?p and oper = "Some Ret" and s = ex_state
         and x = "Some [Unit]" and sk = ?s1 and d = ?d and errs = "[Name]" and s' = ?s2]
      k h1 h2
    by simp
  have b: "check_unit ?N ?p (Some Ret) ex_state = (Inl (Unit_not_found (Some ''u-22'')), ?s3)"
    using check_unit_stops_at_first_found
      [where E = ?N and p = ?p and oper = "Some Ret" and s = ex_state
         and x = "Some [Unit]" and s' = ?s3]
      h3
    by (simp add: ex_payload_def)
  from h1 h2 a b show ?thesis by simp
qed

text \<open>
  C1 as stated fails: with three attempts configured and a registry that has the old name
  at the first read and the requested name from the second read on, the verification ends
  after one attempt with the name mismatch, although a second attempt would have found no
  mismatch.
\<close>

theorem check_unit_no_retry_on_mismatch_counterexample:
  "amqp_check_retries (ex_engine [] ex_renamed ex_no_dawa) = 3 \<and>
   check_unit (ex_engine [] ex_renamed ex_no_dawa)
     (ex_payload (Some ''New'') (Some ''AB12'') (Some ''u-22'')) (Some Ret) ex_state =
     (Inl (Fields_not_updated [Name]), ex_state\<lparr>sd_reads := 1, sleeps := 1\<rparr>) \<and>
   fst (check_department (ex_engine [] ex_renamed ex_no_dawa)
     (ex_payload (Some ''New'') (Some ''AB12'') (Some ''u-22'')) (Some Ret)
     (sleep (ex_state\<lparr>sd_reads := 1, sleeps := 1\<rparr>))) =
     Inr (Some (ex_department ''New'' ''Afdelings-niveau'' ''2019-07-01''), [])"
  by (simp add: ex_defs check_defs numeral_3_eq_3)

subsection \<open>Moves and expectations that are None\<close>

lemma validate_unit_code_effects:
  assumes "validate_unit_code E c ce s = (r, s')"
  shows "published s' = published s" and "sleeps s' = sleeps s"
    and "dawa_requests s' = dawa_requests s"
  using assms unfolding validate_unit_code_def Let_def
  by (auto split: if_splits prod.splits sum.splits dest!: read_department_state)

lemma validate_unit_code_Inl:
  "validate_unit_code E c ce s = (Inl e, s') \<Longrightarrow> e = Not_unique"
  unfolding validate_unit_code_def Let_def
  by (auto split: if_splits prod.splits sum.splits dest: read_department_Inl)

lemma check_levels_Inl:
  "check_levels E p pd = Inl e \<Longrightarrow> e = ValueError \<or> e = KeyError \<or> e = Level_mismatch"
proof -
  have idx: "index xs x = Inl e' \<Longrightarrow> e' = ValueError" for xs :: "string list" and x e'
    by (induction xs) (auto split: if_splits sum.splits)
  assume "check_levels E p pd = Inl e"
  then show ?thesis
    unfolding check_levels_def level_index_def
    by (auto split: sum.splits option.splits if_splits dest: idx)
qed

lemma submit_Inl_published:
  assumes "submit E p ce render tr s = (Inl e, s')"
  shows "published s' = published s"
  using assms unfolding submit_def Let_def
  by (auto split: option.splits prod.splits sum.splits if_splits
      dest!: validate_unit_code_effects(1) read_department_state)

lemma submit_Inl:
  assumes "submit E p ce render tr s = (Inl e, s')"
  shows "e = TypeError \<or> e = Not_unique \<or> (\<exists>cs. e = Code_errors cs) \<or> e = Parent_not_found \<or>
         e = ValueError \<or> e = KeyError \<or> e = Level_mismatch"
  using assms unfolding submit_def Let_def
  by (auto split: option.splits prod.splits sum.splits if_splits
      dest: validate_unit_code_Inl read_department_Inl check_levels_Inl)

text \<open>
  C6. Whatever the directory, the registry and the requested and observed names are, when
  a move ends with the error that lists the fields that could not be updated, the field
  \<open>Name\<close> is not in the list: \<open>move_unit\<close> clears the expected name before it verifies.
\<close>

theorem move_never_reports_name:
  assumes "fst (move_unit E unit_uuid' new_parent_uuid at dry_run s) = Inl (Fields_not_updated errs)"
  shows "Name \<notin> set errs"
proof -
  obtain s' where m: "move_unit E unit_uuid' new_parent_uuid at dry_run s =
      (Inl (Fields_not_updated errs), s')"
    using assms by (cases "move_unit E unit_uuid' new_parent_uuid at dry_run s") auto
  then obtain p s2 where
    "check_unit E (p\<lparr>unit_name := None\<rparr>) (Some Flyt) s2 = (Inl (Fields_not_updated errs), s')"
    unfolding move_unit_def Let_def priv_move_unit_def
    by (auto split: prod.splits sum.splits if_splits
        dest: validate_unit_code_Inl submit_Inl simp: payload_create_def split: option.splits)
  then obtain d s0 where
    "check_department E (p\<lparr>unit_name := None\<rparr>) (Some Flyt) s0 = (Inr (Some d, errs), s')"
    by (auto dest: check_unit_Fields)
  then show ?thesis by (rule check_department_no_name) simp
qed

theorem move_never_reports_name_witness:
  "fst (move_unit (ex_engine [] ex_moved ex_no_dawa) ''u-22'' ''u-11'' ''2020-01-01'' False ex_state) =
     Inl (Fields_not_updated [Level]) \<and>
   name (read_ou (ex_engine [] ex_moved ex_no_dawa) ''u-22'' (Some ''2020-01-01'')) = ''A-sdm1'' \<and>
   DepartmentName (ex_department ''Zeta'' ''NY1-niveau'' ''2019-07-01'') = Some ''Zeta'' \<and>
   Name \<notin> set [Level]"
proof -
  have h: "fst (move_unit (ex_engine [] ex_moved ex_no_dawa) ''u-22'' ''u-11'' ''2020-01-01'' False
      ex_state) = Inl (Fields_not_updated [Level])"
    by code_simp
  from h move_never_reports_name [OF h] show ?thesis
    by (simp add: ex_defs)
qed




subsection \<open>Addresses\<close>

lemma get_dar_address_loop_skip:
  assumes "\<forall>t \<in> set pre. dawa E t addrid = Json []"
  shows "get_dar_address_loop E addrid (pre @ rest) s =
         get_dar_address_loop E addrid rest (s\<lparr>dawa_requests := dawa_requests s @ pre\<rparr>)"
  using assms by (induction pre arbitrary: s) (simp_all add: Let_def)

lemma addrtypes_split:
  assumes "k < length addrtypes"
  shows "addrtypes = take k addrtypes @ (addrtypes ! k) # drop (Suc k) addrtypes"
  using assms by (simp add: id_take_nth_drop)

text \<open>
  C10. The endpoints are requested in their order. When the first \<open>k\<close> endpoints answer
  with an empty list and the next request fails, the lookup ends with the error of a failing
  lookup after these \<open>k + 1\<close> requests, and no later endpoint is requested. When the next
  endpoint answers with a list that is not empty instead, the lookup ends after these
  \<open>k + 1\<close> requests with the label of the last entry of that list. When all endpoints answer
  with an empty list, all are requested and the address is reported as not found.
\<close>

theorem get_dar_address_fallback:
  "(k < length addrtypes \<and>
    (\<forall>i < k. dawa E (addrtypes ! i) addrid = Json []) \<and>
    dawa E (addrtypes ! k) addrid = Request_failed
    \<longrightarrow> get_dar_address E addrid s =
          (Inl (Dar_lookup_failed addrid),
           s\<lparr>dawa_requests := dawa_requests s @ take (Suc k) addrtypes\<rparr>)) \<and>
   (k < length addrtypes \<and>
    (\<forall>i < k. dawa E (addrtypes ! i) addrid = Json []) \<and>
    dawa E (addrtypes ! k) addrid = Json addrobjs \<and> addrobjs \<noteq> []
    \<longrightarrow> get_dar_address E addrid s =
          (Inr (last addrobjs),
           s\<lparr>dawa_requests := dawa_requests s @ take (Suc k) addrtypes\<rparr>)) \<and>
   ((\<forall>i < length addrtypes. dawa E (addrtypes ! i) addrid = Json [])
    \<longrightarrow> get_dar_address E addrid s =
          (Inl (Dar_not_found addrid), s\<lparr>dawa_requests := dawa_requests s @ addrtypes\<rparr>))"
proof -
  have pre: "\<forall>t \<in> set (take k addrtypes). dawa E t addrid = Json []"
    if "k \<le> length addrtypes" "\<forall>i < k. dawa E (addrtypes ! i) addrid = Json []" for k
    using that by (auto simp: in_set_conv_nth)
  have step: "get_dar_address_loop E addrid addrtypes s =
      get_dar_address_loop E addrid ((addrtypes ! k) # drop (Suc k) addrtypes)
        (s\<lparr>dawa_requests := dawa_requests s @ take k addrtypes\<rparr>)"
    if "k < length addrtypes" "\<forall>i < k. dawa E (addrtypes ! i) addrid = Json []" for k
  proof -
    from that have p: "\<forall>t \<in> set (take k addrtypes). dawa E t addrid = Json []"
      by (intro pre) auto
    show ?thesis
      using get_dar_address_loop_skip [OF p, of "(addrtypes ! k) # drop (Suc k) addrtypes" s]
        addrtypes_split [OF that(1)] by simp
  qed
  have tk: "take k addrtypes @ [addrtypes ! k] = take (Suc k) addrtypes" if "k < length addrtypes" for k
    using that by (simp add: take_Suc_conv_app_nth)
  have all: "get_dar_address_loop E addrid addrtypes s =
      (Inl (Dar_not_found addrid), s\<lparr>dawa_requests := dawa_requests s @ addrtypes\<rparr>)"
    if "\<forall>i < length addrtypes. dawa E (addrtypes ! i) addrid = Json []"
  proof -
    from that have p: "\<forall>t \<in> set addrtypes. dawa E t addrid = Json []"
      by (auto simp: in_set_conv_nth)
    show ?thesis using get_dar_address_loop_skip [OF p, of "[]" s] by simp
  qed
  show ?thesis
    by (auto simp: get_dar_address_def step all Let_def tk)
qed

lemmas dar_defs = get_dar_address_def addrtypes_def ex_dawa_fail_second_def ex_dawa_third_def

theorem get_dar_address_fallback_witness:
  "get_dar_address (ex_engine [] ex_never ex_dawa_fail_second) ''a-1'' ex_state =
     (Inl (Dar_lookup_failed ''a-1''),
      ex_state\<lparr>dawa_requests := [''adresser'', ''adgangsadresser'']\<rparr>) \<and>
   get_dar_address (ex_engine [] ex_never ex_dawa_third) ''a-1'' ex_state =
     (Inr ''Toftebjerghaven 4, 2750 Ballerup'',
      ex_state\<lparr>dawa_requests := [''adresser'', ''adgangsadresser'', ''historik/adresser'']\<rparr>) \<and>
   get_dar_address (ex_engine [] ex_never ex_no_dawa) ''a-1'' ex_state =
     (Inl (Dar_not_found ''a-1''), ex_state\<lparr>dawa_requests := addrtypes\<rparr>)"
proof -
  let ?F = "ex_engine [] ex_never ex_dawa_fail_second"
  let ?T = "ex_engine [] ex_never ex_dawa_third"
  let ?N = "ex_engine [] ex_never ex_no_dawa"
  have f: "1 < length addrtypes \<and> (\<forall>i < 1. dawa ?F (addrtypes ! i) ''a-1'' = Json []) \<and>
      dawa ?F (addrtypes ! 1) ''a-1'' = Request_failed"
    by (simp add: ex_defs dar_defs)
  have t: "2 < length addrtypes \<and> (\<forall>i < 2. dawa ?T (addrtypes ! i) ''a-1'' = Json []) \<and>
      dawa ?T (addrtypes ! 2) ''a-1'' =
        Json [''Banegaardspladsen 1, 2750 Ballerup'', ''Toftebjerghaven 4, 2750 Ballerup''] \<and>
      [''Banegaardspladsen 1, 2750 Ballerup'', ''Toftebjerghaven 4, 2750 Ballerup''] \<noteq> []"
    by (simp add: ex_defs dar_defs less_Suc_eq numeral_2_eq_2)
  have n: "\<forall>i < length addrtypes. dawa ?N (addrtypes ! i) ''a-1'' = Json []"
    by (simp add: ex_defs)
  show ?thesis
    using get_dar_address_fallback [where k = 1 and E = ?F and addrid = "''a-1''" and s = ex_state] f
      get_dar_address_fallback [where k = 2 and E = ?T and addrid = "''a-1''" and s = ex_state
        and addrobjs = "[''Banegaardspladsen 1, 2750 Ballerup'', ''Toftebjerghaven 4, 2750 Ballerup'']"] t
      get_dar_address_fallback [where E = ?N and addrid = "''a-1''" and s = ex_state] n
    by (simp add: addrtypes_def ex_state_def numeral_2_eq_2)
qed













subsection \<open>Submission and the public operations\<close>

lemma get_dar_address_loop_effects:
  "get_dar_address_loop E a ts s = (r, s') \<Longrightarrow>
     published s' = published s \<and> sd_reads s' = sd_reads s \<and> sleeps s' = sleeps s"
  by (induction ts arbitrary: s) (auto simp: Let_def split: dawa_response.splits if_splits)

lemma get_dar_address_loop_Inl:
  "get_dar_address_loop E a ts s = (Inl e, s') \<Longrightarrow> e = Dar_lookup_failed a \<or> e = Dar_not_found a"
  by (induction ts arbitrary: s) (auto simp: Let_def split: dawa_response.splits if_splits)

lemma get_dar_address_effects:
  "get_dar_address E a s = (r, s') \<Longrightarrow>
     published s' = published s \<and> sd_reads s' = sd_reads s \<and> sleeps s' = sleeps s"
  unfolding get_dar_address_def
  by (auto split: prod.splits sum.splits dest: get_dar_address_loop_effects)

lemma get_dar_address_Inl:
  "get_dar_address E a s = (Inl e, s') \<Longrightarrow> e = Dar_lookup_failed a \<or> e = Dar_not_found a"
  unfolding get_dar_address_def
  by (auto split: prod.splits sum.splits dest: get_dar_address_loop_Inl)

lemma setdefault_append_None:
  "setdefault_append m k v k' = None \<longleftrightarrow> k' \<noteq> k \<and> m k' = None"
  by (simp add: setdefault_append_def)

lemma grouped_addresses_loop_effects:
  "grouped_addresses_loop E ds g s = (r, s') \<Longrightarrow>
     published s' = published s \<and> sd_reads s' = sd_reads s \<and> sleeps s' = sleeps s"
proof (induction E ds g s rule: grouped_addresses_loop.induct)
  case (1 E scoped keyed s)
  then show ?case by simp
next
  case (2 E d ds scoped keyed s)
  show ?case
  proof (cases "scope d = ''DAR''")
    case False
    with 2 show ?thesis by simp
  next
    case True
    show ?thesis
    proof (cases "get_dar_address E (address_value d) s")
      case (Pair r1 s1)
      note eff = get_dar_address_effects [OF Pair]
      show ?thesis
      proof (cases r1)
        case (Inl e)
        with 2 True Pair eff show ?thesis by simp
      next
        case (Inr label)
        with 2(3) True Pair have
          "grouped_addresses_loop E ds
             (setdefault_append scoped (scope d) label,
              setdefault_append keyed (address_user_key d) (address_value d)) s1 = (r, s')"
          by simp
        from 2(1) [OF True _ _ this] Pair Inr eff show ?thesis by simp
      qed
    qed
  qed
qed

lemma grouped_addresses_loop_Inl:
  "grouped_addresses_loop E ds g s = (Inl e, s') \<Longrightarrow>
     (\<exists>a. e = Dar_lookup_failed a \<or> e = Dar_not_found a) \<and> (\<exists>d \<in> set ds. scope d = ''DAR'')"
proof (induction E ds g s rule: grouped_addresses_loop.induct)
  case (1 E scoped keyed s)
  then show ?case by simp
next
  case (2 E d ds scoped keyed s)
  then show ?case
    by (auto split: if_splits prod.splits sum.splits dest: get_dar_address_Inl)
qed

lemma grouped_addresses_loop_scopes:
  "grouped_addresses_loop E ds (scoped, keyed) s = (Inr (scoped', keyed'), s') \<Longrightarrow>
     scoped' k = None \<longleftrightarrow> scoped k = None \<and> (\<forall>d \<in> set ds. scope d \<noteq> k)"
proof (induction ds arbitrary: scoped keyed s)
  case Nil
  then show ?case by simp
next
  case (Cons d ds)
  show ?case
  proof (cases "scope d = ''DAR''")
    case False
    with Cons.prems have "grouped_addresses_loop E ds
        (setdefault_append scoped (scope d) (address_value d),
         setdefault_append keyed (address_user_key d) (address_value d)) s =
        (Inr (scoped', keyed'), s')"
      by simp
    from Cons.IH [OF this] show ?thesis
      by (simp add: setdefault_append_None) blast
  next
    case True
    with Cons.prems obtain label s1 where
      "grouped_addresses_loop E ds
        (setdefault_append scoped (scope d) label,
         setdefault_append keyed (address_user_key d) (address_value d)) s1 =
        (Inr (scoped', keyed'), s')"
      by (auto split: prod.splits sum.splits)
    from Cons.IH [OF this] show ?thesis
      by (simp add: setdefault_append_None) blast
  qed
qed

lemma grouped_addresses_no_dar:
  "\<forall>d \<in> set ds. scope d \<noteq> ''DAR'' \<Longrightarrow>
     \<exists>g'. grouped_addresses_loop E ds g s = (Inr g', s)"
proof (induction E ds g s rule: grouped_addresses_loop.induct)
  case (1 E scoped keyed s)
  then show ?case by simp
next
  case (2 E d ds scoped keyed s)
  then show ?case by simp
qed

lemma payload_edit_effects:
  "payload_edit E u unit' ads s = (r, s') \<Longrightarrow>
     published s' = published s \<and> sd_reads s' = sd_reads s \<and> sleeps s' = sleeps s"
  unfolding payload_edit_def grouped_addresses_def
  by (auto split: prod.splits sum.splits if_splits dest: grouped_addresses_loop_effects)

lemma payload_edit_dict_Inl:
  "payload_edit_dict u unit' g = Inl e \<Longrightarrow> e = IndexError \<or> e = ValueError"
  unfolding payload_edit_dict_def mo_to_sd_address_def
  by (auto split: prod.splits sum.splits option.splits list.splits simp: get_first_Inl)

lemma payload_edit_Inl:
  assumes "payload_edit E u unit' ads s = (Inl e, s')"
  shows "e = Postal_before_pnumber \<and> (\<forall>d \<in> set ads. scope d \<noteq> ''DAR'') \<and>
           (\<exists>d \<in> set ads. scope d = ''PNUMBER'') \<or>
         (\<exists>a. e = Dar_lookup_failed a \<or> e = Dar_not_found a) \<or> e = IndexError \<or> e = ValueError"
proof (cases "grouped_addresses_loop E ads (Map.empty, Map.empty) s")
  case (Pair r s1)
  show ?thesis
  proof (cases r)
    case (Inl e')
    with Pair assms have "e = e'" by (simp add: payload_edit_def grouped_addresses_def)
    with Pair Inl show ?thesis by (auto dest: grouped_addresses_loop_Inl)
  next
    case (Inr g)
    obtain scoped keyed where g: "g = (scoped, keyed)" by (cases g)
    have dar: "scoped ''DAR'' = None \<longleftrightarrow> (\<forall>d \<in> set ads. scope d \<noteq> ''DAR'')"
      and pn: "scoped ''PNUMBER'' = None \<longleftrightarrow> (\<forall>d \<in> set ads. scope d \<noteq> ''PNUMBER'')"
      using grouped_addresses_loop_scopes [OF Pair [unfolded Inr g]] by simp_all
    show ?thesis
    proof (cases "scoped ''PNUMBER'' \<noteq> None \<and> scoped ''DAR'' = None")
      case True
      with Pair Inr g assms have "e = Postal_before_pnumber"
        by (simp add: payload_edit_def grouped_addresses_def)
      moreover from True dar have "\<forall>d \<in> set ads. scope d \<noteq> ''DAR''" by simp
      moreover from True pn have "\<not> (\<forall>d \<in> set ads. scope d \<noteq> ''PNUMBER'')" by simp
      then have "\<exists>d \<in> set ads. scope d = ''PNUMBER''" by simp
      ultimately show ?thesis by simp
    next
      case False
      with Pair Inr g assms have "payload_edit_dict u unit' (scoped, keyed) = Inl e"
        by (auto simp: payload_edit_def grouped_addresses_def)
      then show ?thesis by (auto dest: payload_edit_dict_Inl)
    qed
  qed
qed


lemmas ex_submit_defs = ex_create_payload_def ex_parent_department_def ex_parent_only_def
  ex_address_def

lemma check_unit_loop_published:
  "check_unit_loop E p oper n ue s = (r, s') \<Longrightarrow> published s' = published s"
proof (induction n arbitrary: ue s)
  case 0
  then show ?case by simp
next
  case (Suc n)
  show ?case
  proof (cases "check_department E p oper (sleep s)")
    case (Pair r1 s1)
    have s1: "published s1 = published s"
      using check_department_effects(1) [OF Pair] by (simp add: sleep_def)
    show ?thesis
    proof (cases r1)
      case (Inl e)
      with Pair Suc.prems s1 show ?thesis by auto
    next
      case (Inr ue')
      obtain u errs where ue': "ue' = (u, errs)" by (cases ue')
      show ?thesis
      proof (cases u)
        case None
        with Pair Inr ue' Suc.prems have "check_unit_loop E p oper n (None, Some errs) s1 = (r, s')"
          by simp
        from Suc.IH [OF this] s1 show ?thesis by simp
      next
        case (Some d)
        with Pair Inr ue' Suc.prems s1 show ?thesis by auto
      qed
    qed
  qed
qed

lemma check_unit_published:
  "check_unit E p oper s = (r, s') \<Longrightarrow> published s' = published s"
  unfolding check_unit_def
  by (auto split: prod.splits sum.splits option.splits list.splits
      dest: check_unit_loop_published)

lemma check_unit_Inl:
  "check_unit E p oper s = (Inl e, s') \<Longrightarrow>
     e = Not_unique \<or> e = TypeError \<or> e = IndexError \<or>
     (\<exists>u. e = Unit_not_found u) \<or> (\<exists>fs. e = Fields_not_updated fs)"
  unfolding check_unit_def
  by (auto split: prod.splits sum.splits option.splits list.splits dest: check_unit_loop_Inl)

lemma payload_edit_ordering:
  assumes "\<exists>d \<in> set ads. scope d = ''PNUMBER''" and "\<forall>d \<in> set ads. scope d \<noteq> ''DAR''"
  shows "payload_edit E u unit' ads s = (Inl Postal_before_pnumber, s)"
proof -
  from grouped_addresses_no_dar [OF assms(2)] obtain g where
    g: "grouped_addresses_loop E ads (Map.empty, Map.empty) s = (Inr g, s)" by blast
  obtain scoped keyed where sk: "g = (scoped, keyed)" by (cases g)
  have dar: "scoped ''DAR'' = None \<longleftrightarrow> (\<forall>d \<in> set ads. scope d \<noteq> ''DAR'')"
    and pn: "scoped ''PNUMBER'' = None \<longleftrightarrow> (\<forall>d \<in> set ads. scope d \<noteq> ''PNUMBER'')"
    using grouped_addresses_loop_scopes [OF g [unfolded sk]] by simp_all
  from assms(1) have "\<not> (\<forall>d \<in> set ads. scope d \<noteq> ''PNUMBER'')" by simp
  with pn have "scoped ''PNUMBER'' \<noteq> None" by simp
  moreover from dar assms(2) have "scoped ''DAR'' = None" by simp
  ultimately show ?thesis using g sk
    by (simp add: payload_edit_def grouped_addresses_def)
qed

lemma update_ou_Inl:
  assumes "update_ou E u unit' ads dry s = (Inl e, s')"
  shows "payload_edit E u unit' ads s = (Inl e, s') \<and> published s' = published s \<or>
         e = Not_unique \<or> e = TypeError \<or> e = IndexError \<or>
         (\<exists>x. e = Unit_not_found x) \<or> (\<exists>fs. e = Fields_not_updated fs)"
  using assms unfolding update_ou_def edit_unit_def Let_def
  by (auto split: prod.splits sum.splits dest: check_unit_Inl payload_edit_effects)

text \<open>
  C8. When the new address and the addresses of the unit have a production unit number among
  them and no postal-location address, adding or editing the address ends with the error of
  the ordering, and the state is the one before: nothing is requested, read or published.
  When they have a postal-location address among them, the operation never ends with that
  error.
\<close>

theorem pnumber_needs_postal_address:
  "((\<exists>d \<in> set (address_data # read_ou_address E unit_uuid' (Some at)). scope d = ''PNUMBER'') \<and>
    (\<forall>d \<in> set (address_data # read_ou_address E unit_uuid' (Some at)). scope d \<noteq> ''DAR'')
    \<longrightarrow> create_address E unit_uuid' address_data at dry_run s = (Inl Postal_before_pnumber, s) \<and>
        edit_address E unit_uuid' address_data at dry_run s = (Inl Postal_before_pnumber, s)) \<and>
   ((\<exists>d \<in> set (address_data # read_ou_address E unit_uuid' (Some at)). scope d = ''DAR'')
    \<longrightarrow> fst (create_address E unit_uuid' address_data at dry_run s) \<noteq> Inl Postal_before_pnumber \<and>
        fst (edit_address E unit_uuid' address_data at dry_run s) \<noteq> Inl Postal_before_pnumber)"
proof (intro conjI impI)
  let ?ads = "address_data # read_ou_address E unit_uuid' (Some at)"
  let ?unit = "read_ou E unit_uuid' (Some at)"
  have ca: "create_address E unit_uuid' address_data at dry_run s =
      update_ou E unit_uuid' ?unit ?ads dry_run s"
    by (simp add: create_address_def Let_def)
  {
    assume "(\<exists>d \<in> set ?ads. scope d = ''PNUMBER'') \<and> (\<forall>d \<in> set ?ads. scope d \<noteq> ''DAR'')"
    then have "payload_edit E unit_uuid' ?unit ?ads s = (Inl Postal_before_pnumber, s)"
      by (intro payload_edit_ordering) blast+
    then have "update_ou E unit_uuid' ?unit ?ads dry_run s = (Inl Postal_before_pnumber, s)"
      by (simp add: update_ou_def)
    then show "create_address E unit_uuid' address_data at dry_run s = (Inl Postal_before_pnumber, s)"
      and "edit_address E unit_uuid' address_data at dry_run s = (Inl Postal_before_pnumber, s)"
      by (simp_all add: ca edit_address_def)
  }
  {
    assume dar: "\<exists>d \<in> set ?ads. scope d = ''DAR''"
    have no: "fst (update_ou E unit_uuid' ?unit ?ads dry_run s) \<noteq> Inl Postal_before_pnumber"
    proof
      assume "fst (update_ou E unit_uuid' ?unit ?ads dry_run s) = Inl Postal_before_pnumber"
      then obtain s' where
        "update_ou E unit_uuid' ?unit ?ads dry_run s = (Inl Postal_before_pnumber, s')"
        by (cases "update_ou E unit_uuid' ?unit ?ads dry_run s") auto
      from update_ou_Inl [OF this] have
        "payload_edit E unit_uuid' ?unit ?ads s = (Inl Postal_before_pnumber, s')"
        by auto
      from payload_edit_Inl [OF this] have "\<forall>d \<in> set ?ads. scope d \<noteq> ''DAR''" by auto
      with dar show False by blast
    qed
    then show "fst (create_address E unit_uuid' address_data at dry_run s) \<noteq> Inl Postal_before_pnumber"
      and "fst (edit_address E unit_uuid' address_data at dry_run s) \<noteq> Inl Postal_before_pnumber"
      by (simp_all add: ca edit_address_def)
  }
qed

theorem pnumber_needs_postal_address_witness:
  "create_address (ex_engine [] ex_never ex_dawa_third) ''u-22'' (ex_address ''PNUMBER'' ''1234567890'')
     ''2020-01-01'' False ex_state = (Inl Postal_before_pnumber, ex_state) \<and>
   fst (create_address (ex_engine [ex_address ''DAR'' ''a-1''] ex_never ex_dawa_third) ''u-22''
     (ex_address ''PNUMBER'' ''1234567890'') ''2020-01-01'' False ex_state) \<noteq>
     Inl Postal_before_pnumber"
proof -
  let ?E = "ex_engine [] ex_never ex_dawa_third"
  let ?D = "ex_engine [ex_address ''DAR'' ''a-1''] ex_never ex_dawa_third"
  let ?a = "ex_address ''PNUMBER'' ''1234567890''"
  have h1: "(\<exists>d \<in> set (?a # read_ou_address ?E ''u-22'' (Some ''2020-01-01'')). scope d = ''PNUMBER'') \<and>
      (\<forall>d \<in> set (?a # read_ou_address ?E ''u-22'' (Some ''2020-01-01'')). scope d \<noteq> ''DAR'')"
    by (simp add: ex_defs ex_address_def)
  have h2: "\<exists>d \<in> set (?a # read_ou_address ?D ''u-22'' (Some ''2020-01-01'')). scope d = ''DAR''"
    by (simp add: ex_defs ex_address_def)
  show ?thesis
    using pnumber_needs_postal_address
        [where E = ?E and address_data = ?a and unit_uuid' = "''u-22''" and at = "''2020-01-01''"
           and dry_run = False and s = ex_state] h1
      pnumber_needs_postal_address
        [where E = ?D and address_data = ?a and unit_uuid' = "''u-22''" and at = "''2020-01-01''"
           and dry_run = False and s = ex_state] h2
    by blast
qed


lemma submit_Inr:
  assumes "submit E p ce render tr s = (Inr r, s')"
  shows "published s' = (if tr then published s else published s @ [render p])"
  using assms unfolding submit_def Let_def call_def
  by (auto split: option.splits prod.splits sum.splits if_splits
      dest!: validate_unit_code_effects(1) read_department_state)

lemma index_position:
  "index xs x = Inr i \<Longrightarrow> i < length xs \<and> xs ! i = x \<and> x \<notin> set (take i xs)"
proof (induction xs arbitrary: i)
  case Nil
  then show ?case by simp
next
  case (Cons y ys)
  then show ?case by (auto split: if_splits sum.splits)
qed

text \<open>
  C7. In \<open>_create_unit\<close> (where \<open>can_exist\<close> is false) and in \<open>_move_unit\<close> (where it is true),
  once the unit code is valid and the registry has the parent, and the level of the unit and
  the level of the parent in the registry are at the positions \<open>unit_index\<close> and
  \<open>parent_index\<close> of the configured levels: the submission returns, and publishes its document
  unless it is a test run, if and only if \<open>unit_index\<close> is greater than \<open>parent_index\<close>;
  otherwise it ends with the error of the levels, and nothing has been published.
\<close>

theorem level_rank_gate:
  assumes "parent p = Some par"
    and "validate_unit_code E (unit_code p) can_exist s = (Inr [], s1)"
    and "read_department E (parent_unit_code par) None (Some (parent_level par)) s1 =
           (Inr (Some parent_department), s2)"
    and "level_index E (unit_level p) = Inr unit_index"
    and "DepartmentLevelIdentifier parent_department = Some l"
    and "level_index E (Some l) = Inr parent_index"
  shows "(if can_exist then priv_move_unit E p test_run s else priv_create_unit E p test_run s) =
           (if unit_index > parent_index
            then (Inr (unit_uuid p),
                  if test_run then s2
                  else s2\<lparr>published := published s @ [if can_exist then Xml_flyt p else Xml_import p]\<rparr>)
            else (Inl Level_mismatch, s2)) \<and>
         published s2 = published s"
proof -
  have p1: "published s1 = published s"
    using validate_unit_code_effects(1) [OF assms(2)] .
  have p2: "published s2 = published s"
    using read_department_state [OF assms(3)] p1 by simp
  have sub: "submit E p can_exist render test_run s =
      (if unit_index > parent_index
       then (Inr (unit_uuid p), if test_run then s2 else s2\<lparr>published := published s @ [render p]\<rparr>)
       else (Inl Level_mismatch, s2))" for render
    using assms p2 by (simp add: submit_def check_levels_def call_def)
  show ?thesis
    using sub [of Xml_flyt] sub [of Xml_import]
    by (cases can_exist) (simp_all add: priv_move_unit_def priv_create_unit_def p2)
qed

theorem level_rank_gate_witness:
  "priv_move_unit (ex_engine [] ex_parent_only ex_no_dawa) (ex_create_payload ''Afdelings-niveau'')
     False ex_state =
     (Inr (Some ''u-22''),
      ex_state\<lparr>published := [Xml_flyt (ex_create_payload ''Afdelings-niveau'')], sd_reads := 1\<rparr>) \<and>
   priv_create_unit (ex_engine [] ex_parent_only ex_no_dawa) (ex_create_payload ''NY1-niveau'')
     False ex_state =
     (Inl Level_mismatch, ex_state\<lparr>sd_reads := 2\<rparr>)"
proof -
  let ?E = "ex_engine [] ex_parent_only ex_no_dawa"
  let ?p = "ex_create_payload ''Afdelings-niveau''"
  let ?q = "ex_create_payload ''NY1-niveau''"
  let ?par = "\<lparr>parent_unit_code = Some ''PA'', parent_uuid = ''u-11'', parent_level = ''NY1-niveau''\<rparr>"
  have m1: "parent ?p = Some ?par" by (simp add: ex_create_payload_def)
  have m2: "validate_unit_code ?E (unit_code ?p) True ex_state = (Inr [], ex_state)"
    by (simp add: validate_can_exist ex_create_payload_def syntax_errors_def isalnum_def
        isalnum_char_def upper_def upper_char_def)
  have m3: "read_department ?E (parent_unit_code ?par) None (Some (parent_level ?par)) ex_state =
      (Inr (Some ex_parent_department), ex_state\<lparr>sd_reads := 1\<rparr>)"
    by (simp add: ex_defs ex_submit_defs check_defs)
  have m4: "level_index ?E (unit_level ?p) = Inr 1"
    by (simp add: level_index_def ex_defs ex_submit_defs)
  have m5: "DepartmentLevelIdentifier ex_parent_department = Some ''NY1-niveau''"
    by (simp add: ex_defs ex_submit_defs)
  have m6: "level_index ?E (Some ''NY1-niveau'') = Inr 0"
    by (simp add: level_index_def ex_defs)
  have c1: "parent ?q = Some ?par" by (simp add: ex_create_payload_def)
  have c2: "validate_unit_code ?E (unit_code ?q) False ex_state = (Inr [], ex_state\<lparr>sd_reads := 1\<rparr>)"
    by (simp add: validate_unit_code_def ex_create_payload_def syntax_errors_def isalnum_def
        isalnum_char_def upper_def upper_char_def ex_defs ex_submit_defs check_defs)
  have c3: "read_department ?E (parent_unit_code ?par) None (Some (parent_level ?par))
      (ex_state\<lparr>sd_reads := 1\<rparr>) =
      (Inr (Some ex_parent_department), ex_state\<lparr>sd_reads := 2\<rparr>)"
    by (simp add: ex_defs ex_submit_defs check_defs)
  have c4: "level_index ?E (unit_level ?q) = Inr 0"
    by (simp add: level_index_def ex_defs ex_submit_defs)
  have u: "unit_uuid ?p = Some ''u-22''" by (simp add: ex_create_payload_def)
  show ?thesis
    using level_rank_gate [OF m1 m2 m3 m4 m5 m6, of False]
      level_rank_gate [OF c1 c2 c3 c4 m5 m6, of False] u
    by (simp add: ex_state_def)
qed


lemma check_unit_no_validation_failure:
  "check_unit E p oper s = (Inl e, s') \<Longrightarrow> \<not> validation_failure e"
  by (auto dest: check_unit_Inl)

lemma update_ou_validation_failure:
  assumes "update_ou E u unit' ads dry s = (Inl e, s')" and "validation_failure e"
  shows "published s' = published s" and "e = Postal_before_pnumber"
proof -
  from update_ou_Inl [OF assms(1)] assms(2)
  have pe: "payload_edit E u unit' ads s = (Inl e, s')" and "published s' = published s"
    by auto
  then show "published s' = published s" by simp
  from payload_edit_Inl [OF pe] assms(2) show "e = Postal_before_pnumber" by auto
qed

lemma rename_unit_validation_failure:
  assumes "rename_unit E u n at dry s = (Inl e, s')" and "validation_failure e"
  shows "published s' = published s"
proof (cases "syntax_errors (user_key (read_ou E u (Some at))) = []")
  case True
  with assms(1) have "update_ou E u ((read_ou E u (Some at))\<lparr>name := n\<rparr>)
      (read_ou_address E u (Some at)) dry s = (Inl e, s')"
    by (simp add: rename_unit_def Let_def validate_can_exist)
  from update_ou_validation_failure(1) [OF this assms(2)] show ?thesis .
next
  case False
  with assms(1) show ?thesis by (simp add: rename_unit_def Let_def validate_can_exist)
qed

lemma move_unit_validation_failure:
  assumes "move_unit E u np at dry s = (Inl e, s')" and "validation_failure e"
  shows "published s' = published s"
proof (cases "syntax_errors (user_key (read_ou E u (Some at))) = []")
  case False
  with assms(1) show ?thesis by (simp add: move_unit_def Let_def validate_can_exist)
next
  case True
  show ?thesis
  proof (cases "payload_create E u (read_ou E u (Some at)) (read_ou E np None)")
    case (Inl e')
    with True assms(1) show ?thesis by (simp add: move_unit_def Let_def validate_can_exist)
  next
    case (Inr p)
    show ?thesis
    proof (cases "priv_move_unit E p dry s")
      case (Pair r s2)
      show ?thesis
      proof (cases r)
        case (Inl e')
        with True Inr Pair assms(1) have "s' = s2"
          by (simp add: move_unit_def Let_def validate_can_exist)
        with Pair Inl show ?thesis
          by (auto simp: priv_move_unit_def dest: submit_Inl_published)
      next
        case (Inr x)
        with True \<open>payload_create E u (read_ou E u (Some at)) (read_ou E np None) = Inr p\<close>
          Pair assms(1)
        have "check_unit E (p\<lparr>unit_name := None\<rparr>) (Some Flyt) s2 = (Inl e, s')"
          by (simp add: move_unit_def Let_def validate_can_exist)
        with assms(2) show ?thesis by (auto dest: check_unit_no_validation_failure)
      qed
    qed
  qed
qed

lemma create_unit_validation_failure:
  assumes "create_unit E u unit' parent' dry s = (Inl e, s')" and "validation_failure e"
  shows "e \<noteq> Postal_before_pnumber \<longrightarrow> published s' = published s"
    and "e = Postal_before_pnumber \<longrightarrow>
           (\<exists>p. payload_create E u unit' parent' = Inr p \<and>
                published s' = (if dry then published s else published s @ [Xml_import p]))"
proof -
  show "e \<noteq> Postal_before_pnumber \<longrightarrow> published s' = published s"
    using assms unfolding create_unit_def Let_def priv_create_unit_def
    by (auto split: sum.splits prod.splits if_splits
        dest: submit_Inl_published check_unit_no_validation_failure
          update_ou_validation_failure(2))
  show "e = Postal_before_pnumber \<longrightarrow>
      (\<exists>p. payload_create E u unit' parent' = Inr p \<and>
           published s' = (if dry then published s else published s @ [Xml_import p]))"
  proof
    assume e: "e = Postal_before_pnumber"
    from assms(1) e obtain p where p: "payload_create E u unit' parent' = Inr p"
      by (auto simp: create_unit_def payload_create_def split: option.splits sum.splits)
    obtain r s1 where s1: "priv_create_unit E p dry s = (r, s1)" by (cases "priv_create_unit E p dry s")
    show "\<exists>p. payload_create E u unit' parent' = Inr p \<and>
        published s' = (if dry then published s else published s @ [Xml_import p])"
    proof (cases r)
      case (Inl e')
      with assms(1) p s1 e have "e' = Postal_before_pnumber"
        by (simp add: create_unit_def)
      with s1 Inl show ?thesis by (auto simp: priv_create_unit_def dest: submit_Inl)
    next
      case (Inr x)
      from s1 Inr have pub: "published s1 = (if dry then published s else published s @ [Xml_import p])"
        by (auto simp: priv_create_unit_def dest: submit_Inr)
      from assms(1) p s1 Inr e have
        "update_ou E u unit' (details unit') dry s1 = (Inl Postal_before_pnumber, s')"
        by (auto simp: create_unit_def Let_def split: if_splits prod.splits sum.splits
            dest: check_unit_no_validation_failure)
      from update_ou_validation_failure(1) [OF this] pub p show ?thesis by simp
    qed
  qed
qed

text \<open>
  C2, as the code has it. When renaming, moving, or adding or editing an address ends with a
  validation failure, nothing has been published. When creating a unit ends with a
  validation failure of the unit itself (its code, its level, the level of its parent),
  nothing has been published. When creating a unit ends with the error of the ordering of
  its addresses, the document that creates the unit has been published, and nothing else,
  unless the run is a dry run, which publishes nothing.
\<close>

theorem validation_failures_and_publishing:
  "(validation_failure e \<and>
    (rename_unit E unit_uuid' new_unit_name at dry_run s = (Inl e, s') \<or>
     move_unit E unit_uuid' new_parent_uuid at dry_run s = (Inl e, s') \<or>
     create_address E unit_uuid' address_data at dry_run s = (Inl e, s') \<or>
     edit_address E unit_uuid' address_data at dry_run s = (Inl e, s'))
    \<longrightarrow> published s' = published s) \<and>
   (validation_failure e \<and> e \<noteq> Postal_before_pnumber \<and>
    create_unit E unit_uuid' unit_data parent_data dry_run s = (Inl e, s')
    \<longrightarrow> published s' = published s) \<and>
   (create_unit E unit_uuid' unit_data parent_data dry_run s = (Inl Postal_before_pnumber, s')
    \<longrightarrow> (\<exists>p. payload_create E unit_uuid' unit_data parent_data = Inr p \<and>
             published s' =
               (if dry_run then published s else published s @ [Xml_import p])))"
proof (intro conjI impI)
  assume a: "validation_failure e \<and>
    (rename_unit E unit_uuid' new_unit_name at dry_run s = (Inl e, s') \<or>
     move_unit E unit_uuid' new_parent_uuid at dry_run s = (Inl e, s') \<or>
     create_address E unit_uuid' address_data at dry_run s = (Inl e, s') \<or>
     edit_address E unit_uuid' address_data at dry_run s = (Inl e, s'))"
  then show "published s' = published s"
    by (auto simp: edit_address_def create_address_def Let_def
        dest: rename_unit_validation_failure move_unit_validation_failure
          update_ou_validation_failure(1))
next
  assume "validation_failure e \<and> e \<noteq> Postal_before_pnumber \<and>
    create_unit E unit_uuid' unit_data parent_data dry_run s = (Inl e, s')"
  then show "published s' = published s"
    using create_unit_validation_failure(1) by blast
next
  assume "create_unit E unit_uuid' unit_data parent_data dry_run s = (Inl Postal_before_pnumber, s')"
  from create_unit_validation_failure(2) [OF this]
  show "\<exists>p. payload_create E unit_uuid' unit_data parent_data = Inr p \<and>
      published s' = (if dry_run then published s else published s @ [Xml_import p])"
    by simp
qed


theorem validation_failures_and_publishing_witness:
  "create_address (ex_engine [] ex_never ex_no_dawa) ''u-22'' (ex_address ''PNUMBER'' ''1234567890'')
     ''2020-01-01'' False ex_state = (Inl Postal_before_pnumber, ex_state) \<and>
   create_unit (ex_engine [] ex_parent_only ex_no_dawa) ''u-22'' (ex_new_unit ''uuid-x'') ex_parent
     False ex_state = (Inl Unknown_level, ex_state) \<and>
   create_unit (ex_engine [] ex_parent_only ex_no_dawa) ''u-22'' (ex_new_unit ''uuid-b'') ex_parent
     True ex_state = (Inl Postal_before_pnumber, ex_state\<lparr>sd_reads := 2\<rparr>) \<and>
   published (ex_state\<lparr>sd_reads := 2\<rparr>) = published ex_state"
proof -
  let ?E = "ex_engine [] ex_parent_only ex_no_dawa"
  have h1: "create_address (ex_engine [] ex_never ex_no_dawa) ''u-22''
      (ex_address ''PNUMBER'' ''1234567890'') ''2020-01-01'' False ex_state =
      (Inl Postal_before_pnumber, ex_state)"
    by code_simp
  have h2: "create_unit ?E ''u-22'' (ex_new_unit ''uuid-x'') ex_parent False ex_state =
      (Inl Unknown_level, ex_state)"
    by code_simp
  have h3: "create_unit ?E ''u-22'' (ex_new_unit ''uuid-b'') ex_parent True ex_state =
      (Inl Postal_before_pnumber, ex_state\<lparr>sd_reads := 2\<rparr>)"
    by code_simp
  have v: "validation_failure Postal_before_pnumber" "validation_failure Unknown_level"
    "Unknown_level \<noteq> Postal_before_pnumber" by simp_all
  from validation_failures_and_publishing
      [where e = Postal_before_pnumber and E = "ex_engine [] ex_never ex_no_dawa"
         and unit_uuid' = "''u-22''" and address_data = "ex_address ''PNUMBER'' ''1234567890''"
         and at = "''2020-01-01''" and dry_run = False and s = ex_state and s' = ex_state] h1 v
  have "published ex_state = published ex_state" by blast
  moreover from validation_failures_and_publishing
      [where e = Unknown_level and E = ?E and unit_uuid' = "''u-22''"
         and unit_data = "ex_new_unit ''uuid-x''" and parent_data = ex_parent
         and dry_run = False and s = ex_state and s' = ex_state] h2 v
  have "published ex_state = published ex_state" by blast
  moreover from validation_failures_and_publishing
      [where E = ?E and unit_uuid' = "''u-22''"
         and unit_data = "ex_new_unit ''uuid-b''" and parent_data = ex_parent
         and dry_run = True and s = ex_state and s' = "ex_state\<lparr>sd_reads := 2\<rparr>"] h3
  have "published (ex_state\<lparr>sd_reads := 2\<rparr>) = published ex_state" by auto
  ultimately show ?thesis using h1 h2 h3 by simp
qed

text \<open>
  C2 as stated fails: a unit is created with a production unit number and no postal
  address; the operation ends with the error of the ordering after the document that creates
  the unit has been published.
\<close>

theorem create_unit_ordering_violation_counterexample:
  "published ex_state = [] \<and>
   create_unit (ex_engine [] ex_parent_only ex_no_dawa) ''u-22'' (ex_new_unit ''uuid-b'') ex_parent
     False ex_state =
     (Inl Postal_before_pnumber,
      ex_state\<lparr>published := [Xml_import (ex_create_payload ''Afdelings-niveau'')], sd_reads := 2\<rparr>)"
  by code_simp

end
